theory Spec2Isabelle
  imports Complex_Main "HOL-Library.Log_Nat"
begin

section \<open>JavaScript numbers\<close>

text \<open>
  A JavaScript \<open>number\<close> is an IEEE-754 binary64 value: a finite value (here the rational
  it denotes), one of the two infinities, or NaN. The two zeros are not told apart; the code
  modelled here never divides by a computed zero, the one place where they differ.
\<close>

datatype number = Num rat | PosInfinity | NegInfinity | NaN

text \<open>\<open>ilog2 x\<close> is the binary exponent of a positive \<open>x\<close>: \<open>2 powi e \<le> x < 2 powi (e + 1)\<close>.\<close>

definition ilog2 :: "rat \<Rightarrow> int" where
  "ilog2 x = (let (p, q) = quotient_of x; e = bitlen p - bitlen q
              in if 2 powi e \<le> x then e else e - 1)"

definition round_half_even :: "rat \<Rightarrow> int" where
  "round_half_even r =
     (let f = \<lfloor>r\<rfloor>; d = r - of_int f
      in if d < 1 / 2 then f else if 1 / 2 < d then f + 1 else if even f then f else f + 1)"

text \<open>
  The spacing of the doubles around \<open>x\<close>: 53 significant bits, and the fixed spacing
  \<open>2 powi (- 1074)\<close> of the subnormal range below \<open>2 powi (- 1022)\<close>.
\<close>

definition quantum :: "rat \<Rightarrow> rat" where
  "quantum x = 2 powi (max (ilog2 \<bar>x\<bar>) (- 1022) - 52)"

text \<open>Rounding to the nearest double, ties to the even significand.\<close>

definition fl :: "rat \<Rightarrow> rat" where
  "fl x = (if x = 0 then 0 else of_int (round_half_even (x / quantum x)) * quantum x)"

text \<open>
  The Number value of a real: the nearest double, or an infinity once the rounded value
  reaches \<open>2 ^ 1024\<close>.
\<close>

definition to_number :: "rat \<Rightarrow> number" where
  "to_number x =
     (let y = fl x
      in if 1024 \<le> ilog2 \<bar>y\<bar> then (if 0 < y then PosInfinity else NegInfinity) else Num y)"

text \<open>The finite doubles: the rationals that are their own Number value.\<close>

definition is_double :: "rat \<Rightarrow> bool" where
  "is_double x = (to_number x = Num x)"

text \<open>A decimal literal of the source text, such as \<open>1.1\<close>.\<close>

definition literal :: "rat \<Rightarrow> number" where
  "literal d = to_number d"

fun js_neg :: "number \<Rightarrow> number" where
  "js_neg (Num a) = Num (- a)"
| "js_neg PosInfinity = NegInfinity"
| "js_neg NegInfinity = PosInfinity"
| "js_neg NaN = NaN"

fun js_add :: "number \<Rightarrow> number \<Rightarrow> number" where
  "js_add (Num a) (Num b) = to_number (a + b)"
| "js_add NaN y = NaN"
| "js_add x NaN = NaN"
| "js_add PosInfinity NegInfinity = NaN"
| "js_add NegInfinity PosInfinity = NaN"
| "js_add (Num a) y = y"
| "js_add x y = x"

definition js_sub :: "number \<Rightarrow> number \<Rightarrow> number" where
  "js_sub x y = js_add x (js_neg y)"

fun js_mul :: "number \<Rightarrow> number \<Rightarrow> number" where
  "js_mul (Num a) (Num b) = to_number (a * b)"
| "js_mul NaN y = NaN"
| "js_mul x NaN = NaN"
| "js_mul (Num a) y = (if a = 0 then NaN else if 0 < a then y else js_neg y)"
| "js_mul x (Num b) = (if b = 0 then NaN else if 0 < b then x else js_neg x)"
| "js_mul PosInfinity y = y"
| "js_mul NegInfinity y = js_neg y"

fun js_div :: "number \<Rightarrow> number \<Rightarrow> number" where
  "js_div (Num a) (Num b) =
     (if b = 0 then (if a = 0 then NaN else if 0 < a then PosInfinity else NegInfinity)
      else to_number (a / b))"
| "js_div NaN y = NaN"
| "js_div x NaN = NaN"
| "js_div (Num a) y = Num 0"
| "js_div x (Num b) = (if 0 \<le> b then x else js_neg x)"
| "js_div x y = NaN"

text \<open>The comparison \<open>x >= y\<close>.\<close>

fun js_ge :: "number \<Rightarrow> number \<Rightarrow> bool" where
  "js_ge (Num a) (Num b) = (b \<le> a)"
| "js_ge NaN y = False"
| "js_ge x NaN = False"
| "js_ge PosInfinity y = True"
| "js_ge x NegInfinity = True"
| "js_ge x y = False"


fun is_positive :: "number \<Rightarrow> bool" where
  "is_positive (Num a) = (0 < a)"
| "is_positive PosInfinity = True"
| "is_positive x = False"

text \<open>
  \<open>Array.prototype.sort\<close> with a comparison function. For a comparison that orders the
  elements consistently every conforming sort returns the same array; it is given here as
  the stable insertion sort, an element moving behind another when the comparison of the
  two is positive.
\<close>

fun insert_by :: "('a \<Rightarrow> 'a \<Rightarrow> number) \<Rightarrow> 'a \<Rightarrow> 'a list \<Rightarrow> 'a list" where
  "insert_by cmp x [] = [x]"
| "insert_by cmp x (y # ys) =
     (if is_positive (cmp x y) then y # insert_by cmp x ys else x # y # ys)"

definition js_sort :: "('a \<Rightarrow> 'a \<Rightarrow> number) \<Rightarrow> 'a list \<Rightarrow> 'a list" where
  "js_sort cmp xs = foldr (insert_by cmp) xs []"

text \<open>The comparison function \<open>(a, b) => a - b\<close>.\<close>

definition compareFn :: "number \<Rightarrow> number \<Rightarrow> number" where
  "compareFn a b = js_sub a b"

subsection \<open>Number to string\<close>











section \<open>Data model of the gas fee controller\<close>

text \<open>A thrown \<open>Error\<close> or \<open>TypeError\<close>, with its message.\<close>

datatype error = Error string | TypeError string

fun message :: "error \<Rightarrow> string" where
  "message (Error m) = m"
| "message (TypeError m) = m"

datatype GasEstimateType = FEE_MARKET | LEGACY | ETH_GASPRICE | NONE

record Eip1559GasFee =
  minWaitTimeEstimate :: number
  maxWaitTimeEstimate :: number
  suggestedMaxPriorityFeePerGas :: string
  suggestedMaxFeePerGas :: string

record GasFeeEstimates =
  low :: Eip1559GasFee
  medium :: Eip1559GasFee
  high :: Eip1559GasFee
  estimatedBaseFee :: string

text \<open>\<open>LegacyGasPriceEstimate\<close>: the fields \<open>low\<close>, \<open>medium\<close>, \<open>high\<close> of the source.\<close>

record LegacyGasPriceEstimate =
  legacy_low :: string
  legacy_medium :: string
  legacy_high :: string

record EthGasPriceEstimate =
  gasPrice :: string

text \<open>
  \<open>EstimatedGasFeeTimeBounds\<close>: \<open>lowerTimeBound\<close> is a number or \<open>null\<close> (\<open>None\<close>),
  \<open>upperTimeBound\<close> a number or the string \<open>'unknown'\<close> (\<open>None\<close>).
\<close>

record EstimatedGasFeeTimeBounds =
  lowerTimeBound :: "number option"
  upperTimeBound :: "number option"

text \<open>
  The value stored under \<open>gasFeeEstimates\<close>: the empty object of the initial state, or one of
  the three estimate shapes.
\<close>

datatype Estimates =
    NoEstimates
  | FeeMarketEstimates GasFeeEstimates
  | LegacyEstimates LegacyGasPriceEstimate
  | EthGasPriceEstimates EthGasPriceEstimate

text \<open>
  \<open>GasFeeStateEstimates\<close> and \<open>GasFeeState = GasFeeStateEstimates & GasFeeStateNetworkCongestion\<close>.
  The empty object \<open>{}\<close> of \<open>estimatedGasFeeTimeBounds\<close> is \<open>None\<close>.
\<close>

record GasFeeStateEstimates =
  gasFeeEstimates :: Estimates
  estimatedGasFeeTimeBounds :: "EstimatedGasFeeTimeBounds option"
  gasEstimateType :: GasEstimateType

record GasFeeState = GasFeeStateEstimates +
  isNetworkCongested :: bool

definition defaultState :: GasFeeState where
  "defaultState =
     \<lparr> gasFeeEstimates = NoEstimates,
       estimatedGasFeeTimeBounds = None,
       gasEstimateType = NONE,
       isNetworkCongested = False \<rparr>"

section \<open>Fee history\<close>

text \<open>
  \<open>BlockFeeHistory\<close> and \<open>FeeHistory\<close>. The type parameter is the shape of
  \<open>priorityFeesByPercentile\<close>: an object or \<open>Map\<close> built key by key is
  \<open>nat \<rightharpoonup> number\<close>; the \<open>Record<Percentile, number>\<close> that the estimate calculation is
  typed with has every key. \<open>gasUsedRatio\<close> is \<open>None\<close> where the array read gave
  \<open>undefined\<close>.
\<close>

record 'm BlockFeeHistory =
  baseFeePerGas :: number
  gasUsedRatio :: "number option"
  priorityFeesByPercentile :: 'm

record 'm FeeHistory =
  startBlockId :: string
  blocks :: "'m BlockFeeHistory list"

text \<open>The fields \<open>oldestBlock\<close>, \<open>baseFeePerGas\<close>, \<open>gasUsedRatio\<close>, \<open>reward\<close> of the response.\<close>

record EthFeeHistoryResponse =
  oldestBlock :: string
  response_baseFeePerGas :: "string list"
  response_gasUsedRatio :: "number list"
  reward :: "string list list"

text \<open>An array read \<open>xs[i]\<close>: \<open>undefined\<close> (\<open>None\<close>) out of range.\<close>

definition array_get :: "'a list \<Rightarrow> nat \<Rightarrow> 'a option" where
  "array_get xs i = (if i < length xs then Some (xs ! i) else None)"

subsection \<open>Hexadecimal conversions\<close>

definition stripHexPrefix :: "string \<Rightarrow> string" where
  "stripHexPrefix str = (if take 2 str = ''0x'' then drop 2 str else str)"

text \<open>
  The value of a hexadecimal digit of either case. What the big-number library makes of
  any other character depends on its version; it is 0 here, and nothing below is about
  such input.
\<close>

definition hexDigit :: "char \<Rightarrow> int" where
  "hexDigit c =
     (let n = int (of_char c :: nat)
      in if 48 \<le> n \<and> n \<le> 57 then n - 48
         else if 97 \<le> n \<and> n \<le> 102 then n - 87
         else if 65 \<le> n \<and> n \<le> 70 then n - 55
         else 0)"

text \<open>\<open>new BN(str, 16)\<close>, with the optional leading minus sign.\<close>

definition hexValue :: "string \<Rightarrow> int" where
  "hexValue digits = foldl (\<lambda>acc c. 16 * acc + hexDigit c) 0 digits"

definition BN_hex :: "string \<Rightarrow> int" where
  "BN_hex str = (case str of c # cs \<Rightarrow> (if c = CHR ''-'' then - hexValue cs else hexValue str)
                 | [] \<Rightarrow> 0)"

text \<open>
  \<open>parseInt(s, 10)\<close> of the decimal digits of an integer: the Number value of that
  integer, the nearest double.
\<close>

definition parseInt_decimal :: "int \<Rightarrow> number" where
  "parseInt_decimal v = to_number (of_int v)"

definition hexToDec :: "string \<Rightarrow> number" where
  "hexToDec hex = parseInt_decimal (BN_hex (stripHexPrefix hex))"

text \<open>
  \<open>hexToDec(undefined)\<close>, reached when a reward row is shorter than the percentile list:
  \<open>stripHexPrefix\<close> hands a non-string through and the big-number constructor reads
  \<open>undefined || 0\<close>.
\<close>

definition hexToDec_cell :: "string option \<Rightarrow> number" where
  "hexToDec_cell cell = (case cell of None \<Rightarrow> Num 0 | Some hex \<Rightarrow> hexToDec hex)"

definition hex_length :: "int \<Rightarrow> nat" where
  "hex_length v = nat ((bitlen v + 3) div 4)"

definition hex_chars :: "nat \<Rightarrow> int \<Rightarrow> string" where
  "hex_chars k v = map (\<lambda>i. ''0123456789abcdef'' ! nat ((v div 16 ^ (k - 1 - i)) mod 16)) [0..<k]"

text \<open>\<open>decToHex\<close> of a block count (a natural number below \<open>10 ^ 21\<close>).\<close>

definition decToHex :: "nat \<Rightarrow> string" where
  "decToHex dec =
     (let hexString = (if dec = 0 then ''0'' else hex_chars (hex_length (int dec)) (int dec))
      in ''0x'' @ hexString)"

subsection \<open>Fetching the fee history\<close>

text \<open>The first error of a list of results, or all the values.\<close>

fun collect :: "(error + 'a) list \<Rightarrow> error + 'a list" where
  "collect [] = Inr []"
| "collect (Inl e # rs) = Inl e"
| "collect (Inr x # rs) = (case collect rs of Inl e \<Rightarrow> Inl e | Inr xs \<Rightarrow> Inr (x # xs))"

text \<open>
  The callback of \<open>baseFeesPerGasAsHex.map\<close> in the default export. Reading a percentile
  out of a missing reward row is a \<open>TypeError\<close>; a missing cell of a row is decoded as
  \<open>hexToDec(undefined)\<close>.
\<close>

definition blockOfIndex ::
  "nat list \<Rightarrow> number list \<Rightarrow> string list list \<Rightarrow> nat \<times> string
     \<Rightarrow> error + (nat \<rightharpoonup> number) BlockFeeHistory" where
  "blockOfIndex percentiles gasUsedRatios priorityFeePercentileGroups entry =
     (case entry of (blockIndex, baseFeePerGasAsHex) \<Rightarrow>
        (case (if percentiles = [] then Inr []
               else (case array_get priorityFeePercentileGroups blockIndex of
                       None \<Rightarrow> Inl (TypeError ''Cannot read properties of undefined'')
                     | Some priorityFeesPerPercentile \<Rightarrow> Inr priorityFeesPerPercentile)) of
           Inl e \<Rightarrow> Inl e
         | Inr priorityFeesPerPercentile \<Rightarrow>
             Inr \<lparr> baseFeePerGas = hexToDec baseFeePerGasAsHex,
                    gasUsedRatio = array_get gasUsedRatios blockIndex,
                    priorityFeesByPercentile =
                      foldl (\<lambda>m (percentileIndex, percentile).
                               m(percentile \<mapsto>
                                   hexToDec_cell (array_get priorityFeesPerPercentile percentileIndex)))
                        Map.empty (zip [0..<length percentiles] percentiles) \<rparr>))"

text \<open>
  The default export \<open>fetchFeeHistory\<close> of \<open>src/gas/fetchFeeHistory.ts\<close>. \<open>ethQuery\<close> is the
  \<open>eth_feeHistory\<close> call through \<open>query\<close>, answering the three parameters with a response
  or an error. \<open>Array.from(new Set(..)).sort(..)\<close> leaves the distinct percentiles in
  ascending order.
\<close>

definition fetchFeeHistory ::
  "(string \<Rightarrow> string \<Rightarrow> nat list \<Rightarrow> error + EthFeeHistoryResponse) \<Rightarrow> string option \<Rightarrow> nat
     \<Rightarrow> nat list \<Rightarrow> error + (nat \<rightharpoonup> number) FeeHistory" where
  "fetchFeeHistory ethQuery endBlock numberOfBlocks givenPercentiles =
     (let percentiles = sort (remdups givenPercentiles)
      in case ethQuery (decToHex numberOfBlocks)
                (case endBlock of None \<Rightarrow> ''latest'' | Some b \<Rightarrow> b) percentiles of
           Inl e \<Rightarrow> Inl e
         | Inr response \<Rightarrow>
             (if length (response_baseFeePerGas response) > 0 \<and>
                 length (response_gasUsedRatio response) > 0 \<and>
                 length (reward response) > 0
              then
                (let baseFeesPerGasAsHex = take numberOfBlocks (response_baseFeePerGas response)
                 in case collect (map (blockOfIndex percentiles (response_gasUsedRatio response)
                                         (reward response))
                                    (zip [0..<length baseFeesPerGasAsHex] baseFeesPerGasAsHex)) of
                      Inl e \<Rightarrow> Inl e
                    | Inr bs \<Rightarrow> Inr \<lparr> startBlockId = oldestBlock response, blocks = bs \<rparr>)
              else Inr \<lparr> startBlockId = oldestBlock response, blocks = [] \<rparr>))"

text \<open>
  Modelled from the spec: \<open>zipEqualSizedTuples\<close> of \<open>../util\<close>, whose source is not part of
  the files at hand. An array-length mismatch among the zipped arrays is fatal; arrays of
  the announced length are zipped position by position.
\<close>

definition zipEqualSizedTuples3 ::
  "nat \<Rightarrow> 'a list \<Rightarrow> 'b list \<Rightarrow> 'c list \<Rightarrow> error + ('a \<times> 'b \<times> 'c) list" where
  "zipEqualSizedTuples3 numberOfColumnsPerTuple xs ys zs =
     (if length xs = numberOfColumnsPerTuple \<and> length ys = numberOfColumnsPerTuple \<and>
         length zs = numberOfColumnsPerTuple
      then Inr (zip xs (zip ys zs))
      else Inl (Error ''Expected tuples of equal size''))"

definition zipEqualSizedTuples2 ::
  "nat \<Rightarrow> 'a list \<Rightarrow> 'b list \<Rightarrow> error + ('a \<times> 'b) list" where
  "zipEqualSizedTuples2 numberOfColumnsPerTuple xs ys =
     (if length xs = numberOfColumnsPerTuple \<and> length ys = numberOfColumnsPerTuple
      then Inr (zip xs ys)
      else Inl (Error ''Expected tuples of equal size''))"

text \<open>The callback of the outer \<open>map\<close> in the named export.\<close>

definition blockOfTuple ::
  "nat list \<Rightarrow> string \<times> number \<times> string list \<Rightarrow> error + (nat \<rightharpoonup> number) BlockFeeHistory" where
  "blockOfTuple percentiles tuple =
     (case tuple of (baseFeePerGasAsHex, ratio, priorityFeesAsHex) \<Rightarrow>
        (case zipEqualSizedTuples2 (length percentiles) percentiles priorityFeesAsHex of
           Inl e \<Rightarrow> Inl e
         | Inr pairs \<Rightarrow>
             Inr \<lparr> baseFeePerGas = hexToDec baseFeePerGasAsHex,
                    gasUsedRatio = Some ratio,
                    priorityFeesByPercentile =
                      foldl (\<lambda>m (percentile, priorityFeeAsHex).
                               m(percentile \<mapsto> hexToDec priorityFeeAsHex))
                        Map.empty pairs \<rparr>))"

text \<open>The named export \<open>fetchFeeHistory\<close>, the one the controller is built with.\<close>

definition fetchFeeHistory_named ::
  "(string \<Rightarrow> string \<Rightarrow> nat list \<Rightarrow> error + EthFeeHistoryResponse) \<Rightarrow> string option \<Rightarrow> nat
     \<Rightarrow> nat list \<Rightarrow> error + (nat \<rightharpoonup> number) FeeHistory" where
  "fetchFeeHistory_named ethQuery endBlock numberOfBlocks percentiles =
     (case ethQuery (decToHex numberOfBlocks)
             (case endBlock of None \<Rightarrow> ''latest'' | Some b \<Rightarrow> b) percentiles of
        Inl e \<Rightarrow> Inl e
      | Inr response \<Rightarrow>
          (if length (response_baseFeePerGas response) > 0 \<and>
              length (response_gasUsedRatio response) > 0 \<and>
              length (reward response) > 0
           then
             (case zipEqualSizedTuples3 numberOfBlocks
                     (take numberOfBlocks (response_baseFeePerGas response))
                     (response_gasUsedRatio response) (reward response) of
                Inl e \<Rightarrow> Inl e
              | Inr tuples \<Rightarrow>
                  (case collect (map (blockOfTuple percentiles) tuples) of
                     Inl e \<Rightarrow> Inl e
                   | Inr bs \<Rightarrow> Inr \<lparr> startBlockId = oldestBlock response, blocks = bs \<rparr>))
           else Inr \<lparr> startBlockId = oldestBlock response, blocks = [] \<rparr>))"

text \<open>
  The blocks that the specification describes for a response: the first \<open>n\<close> base fees,
  each with its gas-used ratio and with its reward row decoded and aligned, position by
  position, with the percentile list.
\<close>

definition spec_blocks ::
  "nat list \<Rightarrow> EthFeeHistoryResponse \<Rightarrow> nat \<Rightarrow> (nat \<rightharpoonup> number) BlockFeeHistory list" where
  "spec_blocks percentiles response n =
     map (\<lambda>i. \<lparr> baseFeePerGas = hexToDec (response_baseFeePerGas response ! i),
                 gasUsedRatio = Some (response_gasUsedRatio response ! i),
                 priorityFeesByPercentile =
                   map_of (zip percentiles (map hexToDec (reward response ! i))) \<rparr>)
       [0..<n]"

section \<open>Estimates from the fee history\<close>


datatype Percentile = P10 | P20 | P30

record Settings =
  percentile :: Percentile
  priorityFeeReduction :: number
  minSuggestedMaxPriorityFeePerGas :: number
  baseFeeMultiplier :: number
  estimatedWaitTimes :: "number \<times> number"


text \<open>
  An element of the sorted array inside an arithmetic expression: out of range it is
  \<open>undefined\<close>, which the arithmetic turns into NaN.
\<close>

definition numberAt :: "number list \<Rightarrow> int \<Rightarrow> number" where
  "numberAt xs i = (if 0 \<le> i \<and> i < int (length xs) then xs ! nat i else NaN)"

definition medianOf :: "number list \<Rightarrow> number" where
  "medianOf numbers =
     (let sortedNumbers = js_sort compareFn numbers;
          len = int (length sortedNumbers)
      in if len mod 2 = 0
         then js_div (js_add (numberAt sortedNumbers (len div 2))
                             (numberAt sortedNumbers (len div 2 - 1))) (Num 2)
         else sortedNumbers ! nat ((len - 1) div 2))"





text \<open>
  The estimate of one tier in the words of the specification, over the rationals with
  every product, sum and quotient rounded to a double by \<open>fl\<close>: the median of the sorted
  fees (the middle element, or the mean of the two central ones), the median reduced and
  raised to the floor, the multiplied base fee plus it, and an amount in wei divided by
  \<open>1e9\<close> and rendered.
\<close>

definition spec_median :: "rat list \<Rightarrow> rat" where
  "spec_median xs =
     (let s = sort xs; n = length xs
      in if odd n then s ! ((n - 1) div 2)
         else fl (fl (s ! (n div 2 - 1) + s ! (n div 2)) / 2))"

definition spec_priority_fee :: "rat \<Rightarrow> rat \<Rightarrow> rat list \<Rightarrow> rat" where
  "spec_priority_fee reduction floor_wei fees =
     max (fl (spec_median fees * fl (1 - fl reduction))) floor_wei"



section \<open>The collaborators of the controller\<close>

text \<open>
  What the constructor receives, as the answers the collaborators give during one run.
  A call that throws (or a promise that rejects) is \<open>Inl\<close>. \<open>getChainId\<close> is the wrapped
  function built by \<open>withNormalizedChainId\<close>, given by the text that the template literal
  \<open>`${chainId}`\<close> produces from its result. The optional
  \<open>getCurrentAccountEIP1559Compatibility\<close> is \<open>None\<close> when it was not passed.
\<close>

datatype Call =
    CallFetchGasEstimates string "string option"
  | CallFetchLegacyGasPriceEstimates string "string option"
  | CallFetchEthGasPriceEstimate

record Collaborators =
  getCurrentNetworkLegacyGasAPICompatibility :: "error + bool"
  getChainId :: "error + string"
  getCurrentNetworkEIP1559Compatibility :: "error + bool"
  getCurrentAccountEIP1559Compatibility :: "(error + bool) option"
  fetchGasEstimates :: "string \<Rightarrow> string option \<Rightarrow> error + GasFeeEstimates"
  fetchLegacyGasPriceEstimates :: "string \<Rightarrow> string option \<Rightarrow> error + LegacyGasPriceEstimate"
  fetchEthGasPriceEstimate :: "error + EthGasPriceEstimate"
  calculateTimeEstimate :: "string \<Rightarrow> string \<Rightarrow> Estimates \<Rightarrow> error + EstimatedGasFeeTimeBounds"
  fetchFeeHistory_injected :: "nat \<Rightarrow> nat list \<Rightarrow> error + (nat \<rightharpoonup> number) FeeHistory"
  EIP1559APIEndpoint :: string
  legacyAPIEndpoint :: string
  clientId :: "string option"

text \<open>\<open>String.prototype.replace\<close> with a string pattern: the first occurrence only.\<close>

fun string_replace :: "string \<Rightarrow> string \<Rightarrow> string \<Rightarrow> string" where
  "string_replace pat rep [] = (if pat = [] then rep else [])"
| "string_replace pat rep (c # cs) =
     (if take (length pat) (c # cs) = pat then rep @ drop (length pat) (c # cs)
      else c # string_replace pat rep cs)"

section \<open>Compatibility check\<close>

text \<open>
  \<open>getEIP1559Compatibility\<close>: the network's answer is awaited first, then the account's
  (\<open>?.() ?? true\<close>); anything thrown on the way gives \<open>false\<close>.
\<close>

definition getEIP1559Compatibility :: "Collaborators \<Rightarrow> bool" where
  "getEIP1559Compatibility env =
     (case getCurrentNetworkEIP1559Compatibility env of
        Inl e \<Rightarrow> False
      | Inr currentNetworkIsEIP1559Compatible \<Rightarrow>
          (case getCurrentAccountEIP1559Compatibility env of
             None \<Rightarrow> currentNetworkIsEIP1559Compatible
           | Some (Inl e) \<Rightarrow> False
           | Some (Inr currentAccountIsEIP1559Compatible) \<Rightarrow>
               currentNetworkIsEIP1559Compatible \<and> currentAccountIsEIP1559Compatible))"

section \<open>Estimate fetch\<close>

text \<open>
  \<open>getTimeEstimate\<close> reads the state of the controller as it is when called: outside the
  fee-market type it answers \<open>{}\<close>; inside, it hands the stored estimates to
  \<open>calculateTimeEstimate\<close>.
\<close>

definition getTimeEstimate ::
  "Collaborators \<Rightarrow> GasFeeState \<Rightarrow> string \<Rightarrow> string \<Rightarrow> error + EstimatedGasFeeTimeBounds option" where
  "getTimeEstimate env st maxPriorityFeePerGas maxFeePerGas =
     (if gasEstimateType st \<noteq> FEE_MARKET then Inr None
      else (case calculateTimeEstimate env maxPriorityFeePerGas maxFeePerGas (gasFeeEstimates st) of
              Inl e \<Rightarrow> Inl e
            | Inr b \<Rightarrow> Inr (Some b)))"

text \<open>
  The body of the outer \<open>try\<close> of \<open>_fetchGasFeeEstimateData\<close>: the new estimates or what was
  thrown, with the fetches made.
\<close>

definition primaryBranch ::
  "Collaborators \<Rightarrow> GasFeeState \<Rightarrow> bool \<Rightarrow> bool \<Rightarrow> string
     \<Rightarrow> (error + GasFeeStateEstimates) \<times> Call list" where
  "primaryBranch env st isEIP1559Compatible isLegacyGasAPICompatible chainId =
     (if isEIP1559Compatible then
        (let url = string_replace ''<chain_id>'' chainId (EIP1559APIEndpoint env);
             calls = [CallFetchGasEstimates url (clientId env)]
         in case fetchGasEstimates env url (clientId env) of
              Inl e \<Rightarrow> (Inl e, calls)
            | Inr estimates \<Rightarrow>
                (case getTimeEstimate env st
                        (suggestedMaxPriorityFeePerGas (medium estimates))
                        (suggestedMaxFeePerGas (medium estimates)) of
                   Inl e \<Rightarrow> (Inl e, calls)
                 | Inr bounds \<Rightarrow>
                     (Inr \<lparr> gasFeeEstimates = FeeMarketEstimates estimates,
                            estimatedGasFeeTimeBounds = bounds,
                            gasEstimateType = FEE_MARKET \<rparr>, calls)))
      else if isLegacyGasAPICompatible then
        (let url = string_replace ''<chain_id>'' chainId (legacyAPIEndpoint env);
             calls = [CallFetchLegacyGasPriceEstimates url (clientId env)]
         in case fetchLegacyGasPriceEstimates env url (clientId env) of
              Inl e \<Rightarrow> (Inl e, calls)
            | Inr estimates \<Rightarrow>
                (Inr \<lparr> gasFeeEstimates = LegacyEstimates estimates,
                       estimatedGasFeeTimeBounds = None,
                       gasEstimateType = LEGACY \<rparr>, calls))
      else (Inl (Error ''Main gas fee/price estimation failed. Use fallback''), []))"

text \<open>The \<open>catch\<close> of the outer \<open>try\<close>: the single \<open>eth_gasPrice\<close> probe.\<close>

definition fallbackBranch :: "Collaborators \<Rightarrow> (error + GasFeeStateEstimates) \<times> Call list" where
  "fallbackBranch env =
     (case fetchEthGasPriceEstimate env of
        Inr estimates \<Rightarrow>
          (Inr \<lparr> gasFeeEstimates = EthGasPriceEstimates estimates,
                 estimatedGasFeeTimeBounds = None,
                 gasEstimateType = ETH_GASPRICE \<rparr>, [CallFetchEthGasPriceEstimate])
      | Inl e \<Rightarrow>
          (Inl (Error (''Gas fee/price estimation failed. Message: '' @ message e)),
           [CallFetchEthGasPriceEstimate]))"

text \<open>\<open>this.update\<close> with the three assignments of the source.\<close>

definition commitEstimates :: "GasFeeStateEstimates \<Rightarrow> GasFeeState \<Rightarrow> GasFeeState" where
  "commitEstimates newState st =
     st\<lparr> gasFeeEstimates := gasFeeEstimates newState,
         estimatedGasFeeTimeBounds := estimatedGasFeeTimeBounds newState,
         gasEstimateType := gasEstimateType newState \<rparr>"

text \<open>
  \<open>_fetchGasFeeEstimateData\<close>: the result (or what is thrown to the caller), the fetches
  made in order, and the state of the controller afterwards.
\<close>

definition fetchGasFeeEstimateData ::
  "Collaborators \<Rightarrow> bool \<Rightarrow> GasFeeState
     \<Rightarrow> (error + GasFeeStateEstimates) \<times> Call list \<times> GasFeeState" where
  "fetchGasFeeEstimateData env shouldUpdateState st =
     (case getCurrentNetworkLegacyGasAPICompatibility env of
        Inl e \<Rightarrow> (Inl e, [], st)
      | Inr isLegacyGasAPICompatible \<Rightarrow>
     (case getChainId env of
        Inl e \<Rightarrow> (Inl e, [], st)
      | Inr chainId \<Rightarrow>
     (let isEIP1559Compatible = getEIP1559Compatibility env;
          (primary, calls) =
             primaryBranch env st isEIP1559Compatible isLegacyGasAPICompatible chainId;
          (outcome, calls') =
             (case primary of
                Inr newState \<Rightarrow> (Inr newState, calls)
              | Inl e \<Rightarrow> (let (r, cs) = fallbackBranch env in (r, calls @ cs)))
      in case outcome of
           Inl e \<Rightarrow> (Inl e, calls', st)
         | Inr newState \<Rightarrow>
             (Inr newState, calls',
              if shouldUpdateState then commitEstimates newState st else st))))"

section \<open>Network congestion\<close>

text \<open>
  Modelled from the spec: \<open>isNumber\<close> of \<open>../util\<close>, whose source is not part of the files at
  hand; it lets through the blocks where the percentile is present.
\<close>

definition isNumber :: "number option \<Rightarrow> bool" where
  "isNumber v = (v \<noteq> None)"

text \<open>
  \<open>determineWhetherNetworkCongested\<close>: what is returned (or thrown), and the state of the
  controller afterwards.
\<close>

definition determineWhetherNetworkCongested ::
  "Collaborators \<Rightarrow> GasFeeState \<Rightarrow> (error + bool) \<times> GasFeeState" where
  "determineWhetherNetworkCongested env st =
     (let isEIP1559Compatible = getEIP1559Compatibility env
      in if isEIP1559Compatible then
           (case fetchFeeHistory_injected env 100 [50] of
              Inl e \<Rightarrow> (Inl e, st)
            | Inr feeHistory \<Rightarrow>
                (let sortedPriorityFees =
                       js_sort compareFn
                         (map the (filter isNumber
                            (map (\<lambda>block. priorityFeesByPercentile block 50)
                               (blocks feeHistory))));
                     congested =
                       (if length sortedPriorityFees > 0
                        then (let minPriorityFee = sortedPriorityFees ! 0;
                                  maxPriorityFee =
                                    sortedPriorityFees ! (length sortedPriorityFees - 1)
                              in js_ge maxPriorityFee
                                   (js_mul minPriorityFee (literal (11 / 10))))
                        else False)
                 in (Inr congested, st\<lparr> isNetworkCongested := congested \<rparr>)))
         else (Inr False, st))"

section \<open>Polling\<close>

datatype PollableItem = GasFeeEstimatesItem | IsNetworkCongestedItem

text \<open>
  The controller: its state, the poll queue (a \<open>Set\<close>, kept in insertion order), the pending
  timer (\<open>intervalId\<close>, holding the delay it was set with), the configured delay, and the
  record of the producer invocations made so far, in order. A producer (an entry of
  \<open>pollableItems\<close>) takes the state to its outcome and the state it leaves.
\<close>

record 'w controller =
  world :: 'w
  pollQueue :: "PollableItem list"
  intervalId :: "nat option"
  intervalDelay :: nat
  invocations :: "PollableItem list"

type_synonym 'w producers = "PollableItem \<Rightarrow> 'w \<Rightarrow> (error + unit) \<times> 'w"

definition set_add :: "'a \<Rightarrow> 'a list \<Rightarrow> 'a list" where
  "set_add x xs = (if x \<in> set xs then xs else xs @ [x])"

definition invoke :: "'w producers \<Rightarrow> PollableItem \<Rightarrow> 'w controller \<Rightarrow> (error + unit) \<times> 'w controller" where
  "invoke pollableItems item c =
     (case pollableItems item (world c) of
        (r, w) \<Rightarrow> (r, c\<lparr> world := w, invocations := invocations c @ [item] \<rparr>))"

definition scheduleNextPoll :: "'w controller \<Rightarrow> 'w controller" where
  "scheduleNextPoll c = c\<lparr> intervalId := Some (intervalDelay c) \<rparr>"

definition startPolling :: "'w controller \<Rightarrow> 'w controller" where
  "startPolling c = (if intervalId c = None then scheduleNextPoll c else c)"

definition pausePolling :: "'w controller \<Rightarrow> 'w controller" where
  "pausePolling c = (if intervalId c \<noteq> None then c\<lparr> intervalId := None \<rparr> else c)"

definition updateWithAndStartPollingFor ::
  "'w producers \<Rightarrow> PollableItem \<Rightarrow> 'w controller \<Rightarrow> (error + unit) \<times> 'w controller" where
  "updateWithAndStartPollingFor pollableItems item c =
     (if item \<notin> set (pollQueue c) then
        (case invoke pollableItems item c of
           (Inl e, c') \<Rightarrow> (Inl e, c')
         | (Inr u, c') \<Rightarrow>
             (Inr (), startPolling (c'\<lparr> pollQueue := set_add item (pollQueue c') \<rparr>)))
      else (Inr (), c))"

definition stopPollingFor :: "PollableItem \<Rightarrow> 'w controller \<Rightarrow> 'w controller" where
  "stopPollingFor item c = c\<lparr> pollQueue := removeAll item (pollQueue c) \<rparr>"

definition stopPolling :: "'w controller \<Rightarrow> 'w controller" where
  "stopPolling c = (pausePolling c)\<lparr> pollQueue := [] \<rparr>"

text \<open>
  \<open>poll\<close>: every queued producer runs under \<open>safelyExecute\<close>, which swallows what it throws;
  the runs are taken one after the other, in queue order.
\<close>

definition poll :: "'w producers \<Rightarrow> 'w controller \<Rightarrow> 'w controller" where
  "poll pollableItems c =
     foldl (\<lambda>c' item. snd (invoke pollableItems item c')) c (pollQueue c)"

text \<open>The callback of the pending timer: one poll, then the next timer.\<close>

definition timerFires :: "'w producers \<Rightarrow> 'w controller \<Rightarrow> 'w controller" where
  "timerFires pollableItems c =
     (if intervalId c = None then c else scheduleNextPoll (poll pollableItems c))"

text \<open>
  The two producers of the controller, \<open>_fetchGasFeeEstimateData\<close> (with its default
  options) and \<open>determineWhetherNetworkCongested\<close>, for collaborators that answer alike on
  every call.
\<close>

fun pollableItems :: "Collaborators \<Rightarrow> GasFeeState producers" where
  "pollableItems env GasFeeEstimatesItem st =
     (case fetchGasFeeEstimateData env True st of
        (Inl e, calls, st') \<Rightarrow> (Inl e, st')
      | (Inr r, calls, st') \<Rightarrow> (Inr (), st'))"
| "pollableItems env IsNetworkCongestedItem st =
     (case determineWhetherNetworkCongested env st of
        (Inl e, st') \<Rightarrow> (Inl e, st')
      | (Inr r, st') \<Rightarrow> (Inr (), st'))"

text \<open>A controller as the constructor leaves it.\<close>

definition newController :: "nat \<Rightarrow> 'w \<Rightarrow> 'w controller" where
  "newController interval w =
     \<lparr> world = w, pollQueue = [], intervalId = None, intervalDelay = interval,
       invocations = [] \<rparr>"

section \<open>Sample collaborators\<close>

text \<open>
  The collaborators and mock data that the test suite of the controller builds
  (\<open>buildGasFeeController\<close>, \<open>buildMockDataForFetchGasEstimates\<close> and the like), with a time
  estimation that answers a fixed pair of bounds.
\<close>

definition sampleEstimates :: GasFeeEstimates where
  "sampleEstimates =
     \<lparr> low = \<lparr> minWaitTimeEstimate = Num 10000, maxWaitTimeEstimate = Num 20000,
               suggestedMaxPriorityFeePerGas = ''1'', suggestedMaxFeePerGas = ''10'' \<rparr>,
       medium = \<lparr> minWaitTimeEstimate = Num 30000, maxWaitTimeEstimate = Num 40000,
                  suggestedMaxPriorityFeePerGas = ''1.5'', suggestedMaxFeePerGas = ''20'' \<rparr>,
       high = \<lparr> minWaitTimeEstimate = Num 50000, maxWaitTimeEstimate = Num 60000,
                suggestedMaxPriorityFeePerGas = ''2'', suggestedMaxFeePerGas = ''30'' \<rparr>,
       estimatedBaseFee = ''100'' \<rparr>"

definition sampleLegacyEstimates :: LegacyGasPriceEstimate where
  "sampleLegacyEstimates = \<lparr> legacy_low = ''10'', legacy_medium = ''20'', legacy_high = ''30'' \<rparr>"

definition sampleTimeBounds :: EstimatedGasFeeTimeBounds where
  "sampleTimeBounds = \<lparr> lowerTimeBound = Some (Num 15000), upperTimeBound = None \<rparr>"

definition sampleBlock :: "rat \<Rightarrow> (nat \<rightharpoonup> number) BlockFeeHistory" where
  "sampleBlock fee =
     \<lparr> baseFeePerGas = Num 1, gasUsedRatio = Some (Num 1),
       priorityFeesByPercentile = [50 \<mapsto> Num fee] \<rparr>"

definition sampleFeeHistory :: "rat \<Rightarrow> rat \<Rightarrow> (nat \<rightharpoonup> number) FeeHistory" where
  "sampleFeeHistory fee1 fee2 =
     \<lparr> startBlockId = ''0x1'', blocks = [sampleBlock fee1, sampleBlock fee2] \<rparr>"

definition sampleCollaborators :: Collaborators where
  "sampleCollaborators =
     \<lparr> getCurrentNetworkLegacyGasAPICompatibility = Inr False,
       getChainId = Inr ''1'',
       getCurrentNetworkEIP1559Compatibility = Inr True,
       getCurrentAccountEIP1559Compatibility = None,
       fetchGasEstimates = (\<lambda>url client. Inr sampleEstimates),
       fetchLegacyGasPriceEstimates = (\<lambda>url client. Inr sampleLegacyEstimates),
       fetchEthGasPriceEstimate = Inr \<lparr> gasPrice = ''1'' \<rparr>,
       calculateTimeEstimate = (\<lambda>maxPriorityFeePerGas maxFeePerGas estimates. Inr sampleTimeBounds),
       fetchFeeHistory_injected = (\<lambda>numberOfBlocks percentiles. Inr (sampleFeeHistory 100 200)),
       EIP1559APIEndpoint = ''http://eip-1559.endpoint/<chain_id>'',
       legacyAPIEndpoint = ''http://legacy.endpoint/<chain_id>'',
       clientId = None \<rparr>"

text \<open>The same with a fee-market fetch that throws.\<close>

definition failingFeeMarket :: Collaborators where
  "failingFeeMarket =
     sampleCollaborators\<lparr> fetchGasEstimates := (\<lambda>url client. Inl (Error ''fetch failed'')) \<rparr>"

text \<open>Collaborators none of whose sources of estimates answers.\<close>

definition unreachableSources :: Collaborators where
  "unreachableSources =
     sampleCollaborators\<lparr> fetchGasEstimates := (\<lambda>url client. Inl (Error ''fetch failed'')),
                           fetchEthGasPriceEstimate := Inl (Error ''fetch failed'') \<rparr>"

text \<open>A network that is not fee-market compatible.\<close>

definition incompatibleNetwork :: Collaborators where
  "incompatibleNetwork =
     sampleCollaborators\<lparr> getCurrentNetworkEIP1559Compatibility := Inr False \<rparr>"

text \<open>A fee history whose two blocks paid 100 and 110 at the 50th percentile.\<close>

definition boundaryFees :: Collaborators where
  "boundaryFees =
     sampleCollaborators\<lparr> fetchFeeHistory_injected :=
       (\<lambda>numberOfBlocks percentiles. Inr (sampleFeeHistory 100 110)) \<rparr>"

text \<open>The response of the test suite of \<open>fetchFeeHistory\<close>: five blocks, three percentiles.\<close>

definition mainnetResponse :: EthFeeHistoryResponse where
  "mainnetResponse =
     \<lparr> oldestBlock = ''0xcb1939'',
       response_baseFeePerGas =
         [''0x16eb46a3bb'', ''0x14cd6f0628'', ''0x1763700ef2'', ''0x1477020d14'',
          ''0x129c9eb46b'', ''0x134002f480''],
       response_gasUsedRatio =
         [literal (13060046666666666 / 10 ^ 17), literal (9972395333333334 / 10 ^ 16), Num 0,
          literal (13780313333333333 / 10 ^ 17), literal (6371707333333333 / 10 ^ 16)],
       reward =
         [[''0x59682f00'', ''0x59682f00'', ''0x59682f00''],
          [''0x540ae480'', ''0x59682f00'', ''0x59682f00''],
          [''0x0'', ''0x0'', ''0x0''],
          [''0x3b9aca00'', ''0x3b9aca00'', ''0x3b9aca00''],
          [''0x59682f00'', ''0x59682f00'', ''0x59682f00'']] \<rparr>"



text \<open>The priority fees of the three blocks of the test suite, by percentile.\<close>

fun testFees :: "Percentile \<Rightarrow> rat list" where
  "testFees P10 = [1250000000, 0, 1250000000]"
| "testFees P20 = [1500000000, 0, 1400000000]"
| "testFees P30 = [1500000000, 0, 1500000000]"

text \<open>A response of \<open>eth_feeHistory\<close> with empty arrays.\<close>

definition emptyResponse :: EthFeeHistoryResponse where
  "emptyResponse =
     \<lparr> oldestBlock = ''0x0'', response_baseFeePerGas = [], response_gasUsedRatio = [],
       reward = [] \<rparr>"

section \<open>Properties of the rounding\<close>

lemma pow2_pos [simp]: "0 < (2::rat) powi e"
  by (simp add: zero_less_power_int)

lemma pow2_of_nat: "0 \<le> e \<Longrightarrow> (2::rat) powi e = of_int (2 ^ nat e)"
  by (simp add: power_int_def)

lemma pow2_diff: "(2::rat) powi (a - b) = 2 powi a / 2 powi b"
  by (simp add: power_int_diff)

lemma pow2_mono: "a \<le> b \<Longrightarrow> (2::rat) powi a \<le> 2 powi b"
  by (simp add: power_int_increasing)

lemma pow2_strict_mono: "a < b \<Longrightarrow> (2::rat) powi a < 2 powi b"
  by (simp add: power_int_strict_increasing)

lemma ilog2_bounds:
  assumes "0 < x"
  shows "2 powi (ilog2 x) \<le> x \<and> x < 2 powi (ilog2 x + 1)"
proof -
  obtain p q where pq: "quotient_of x = (p, q)" by (cases "quotient_of x")
  have q: "0 < q" using pq by (rule quotient_of_denom_pos)
  have x: "x = of_int p / of_int q" using pq by (rule quotient_of_div)
  have p: "0 < p" using assms q x by (simp add: zero_less_divide_iff)
  define bp where "bp = bitlen p"
  define bq where "bq = bitlen q"
  have bp1: "1 \<le> bp" and bq1: "1 \<le> bq"
    using p q by (auto simp: bp_def bq_def bitlen_alt_def)
  from bitlen_bounds [OF p] have pb: "2 ^ nat (bp - 1) \<le> p" "p < 2 ^ nat bp"
    by (simp_all add: bp_def)
  from bitlen_bounds [OF q] have qb: "2 ^ nat (bq - 1) \<le> q" "q < 2 ^ nat bq"
    by (simp_all add: bq_def)
  have pr: "(2::rat) powi (bp - 1) \<le> of_int p" "of_int p < (2::rat) powi bp"
    using pb bp1 by (simp_all add: pow2_of_nat del: of_int_power)
  have qr: "(2::rat) powi (bq - 1) \<le> of_int q" "of_int q < (2::rat) powi bq"
    using qb bq1 by (simp_all add: pow2_of_nat del: of_int_power)
  have qpos: "(0::rat) < of_int q" and ppos: "(0::rat) < of_int p"
    using q p by simp_all
  have "x < 2 powi bp / of_int q"
    unfolding x using pr(2) qpos by (rule divide_strict_right_mono)
  also have "\<dots> \<le> 2 powi bp / 2 powi (bq - 1)"
    using qr(1) qpos by (intro divide_left_mono) (simp_all add: zero_less_mult_iff)
  also have "\<dots> = 2 powi (bp - bq + 1)"
    using pow2_diff [of bp "bq - 1"] by (simp add: algebra_simps)
  finally have up: "x < 2 powi (bp - bq + 1)" .
  have "(2::rat) powi (bp - bq - 1) = 2 powi (bp - 1) / 2 powi bq"
    using pow2_diff [of "bp - 1" bq] by (simp add: algebra_simps)
  also have "\<dots> \<le> of_int p / 2 powi bq"
    using pr(1) by (intro divide_right_mono) simp_all
  also have "\<dots> \<le> of_int p / of_int q"
    using qr(2) qpos ppos by (intro divide_left_mono) simp_all
  finally have lo: "2 powi (bp - bq - 1) \<le> x"
    unfolding x .
  show ?thesis
    using up lo by (auto simp: ilog2_def pq bp_def bq_def Let_def not_le)
qed

lemma ilog2_eqI:
  assumes "2 powi e \<le> x" and "x < 2 powi (e + 1)"
  shows "ilog2 x = e"
proof -
  have pos: "0 < x" using assms(1) pow2_pos [of e] by linarith
  note b = ilog2_bounds [OF pos]
  have "\<not> ilog2 x < e"
  proof
    assume "ilog2 x < e"
    then have "2 powi (ilog2 x + 1) \<le> (2::rat) powi e" by (intro pow2_mono) simp
    with b assms show False by linarith
  qed
  moreover have "\<not> e < ilog2 x"
  proof
    assume "e < ilog2 x"
    then have "2 powi (e + 1) \<le> (2::rat) powi (ilog2 x)" by (intro pow2_mono) simp
    with b assms show False by linarith
  qed
  ultimately show ?thesis by simp
qed

lemma rhe_of_int [simp]: "round_half_even (of_int k) = k"
  by (simp add: round_half_even_def)

lemma rhe_nonneg: "0 \<le> r \<Longrightarrow> 0 \<le> round_half_even r"
  by (auto simp: round_half_even_def Let_def)

lemma rhe_nonpos: "r \<le> 0 \<Longrightarrow> round_half_even r \<le> 0"
proof -
  assume r: "r \<le> 0"
  then have f: "\<lfloor>r\<rfloor> \<le> 0" by (simp add: floor_le_zero)
  show ?thesis
  proof (cases "\<lfloor>r\<rfloor> = 0")
    case True
    then have "0 \<le> r" by (metis of_int_0 of_int_floor_le)
    with r have "r = 0" by simp
    then show ?thesis by (simp add: round_half_even_def)
  next
    case False
    with f have "\<lfloor>r\<rfloor> + 1 \<le> 0" by linarith
    then show ?thesis using f by (auto simp: round_half_even_def Let_def)
  qed
qed

lemma rhe_ge_one: "1 / 2 < r \<Longrightarrow> 1 \<le> round_half_even r"
proof -
  assume r: "1 / 2 < r"
  then have f: "0 \<le> \<lfloor>r\<rfloor>" by simp
  show ?thesis
  proof (cases "\<lfloor>r\<rfloor> = 0")
    case True
    then have "\<not> r - of_int \<lfloor>r\<rfloor> < 1 / 2" using r by simp
    moreover have "1 / 2 < r - of_int \<lfloor>r\<rfloor>" using r True by simp
    ultimately show ?thesis using True by (simp add: round_half_even_def Let_def)
  next
    case False
    with f have "1 \<le> \<lfloor>r\<rfloor>" by linarith
    then show ?thesis by (auto simp: round_half_even_def Let_def)
  qed
qed

lemma quantum_pos [simp]: "0 < quantum x"
  by (simp add: quantum_def)

lemma fl_sign:
  "0 \<le> x \<Longrightarrow> 0 \<le> fl x" "x \<le> 0 \<Longrightarrow> fl x \<le> 0"
proof -
  have q: "0 \<le> quantum x" using quantum_pos [of x] by linarith
  show "0 \<le> fl x" if "0 \<le> x"
  proof -
    have "0 \<le> x / quantum x" using that q by simp
    then have "(0::rat) \<le> of_int (round_half_even (x / quantum x))"
      using rhe_nonneg by simp
    then have "0 \<le> of_int (round_half_even (x / quantum x)) * quantum x"
      using q by (rule mult_nonneg_nonneg)
    then show ?thesis by (simp add: fl_def)
  qed
  show "fl x \<le> 0" if "x \<le> 0"
  proof -
    have "x / quantum x \<le> 0" using that q by (simp add: divide_nonpos_nonneg)
    then have "(of_int (round_half_even (x / quantum x)) :: rat) \<le> 0"
      using rhe_nonpos by simp
    then have "of_int (round_half_even (x / quantum x)) * quantum x \<le> 0"
      using q by (rule mult_nonpos_nonneg)
    then show ?thesis by (simp add: fl_def)
  qed
qed

lemma fl_pos:
  assumes "2 powi (- 1074) \<le> x"
  shows "0 < fl x"
proof -
  have pos: "0 < x" using assms pow2_pos [of "- 1074"] by linarith
  define e where "e = ilog2 x"
  have lo: "2 powi e \<le> x" using ilog2_bounds [OF pos] by (simp add: e_def)
  have q: "quantum x = 2 powi (max e (- 1022) - 52)"
    using pos by (simp add: quantum_def e_def)
  have "1 \<le> x / quantum x"
  proof (cases "- 1022 \<le> e")
    case True
    then have "quantum x = 2 powi (e - 52)" by (simp add: q max_def)
    also have "\<dots> \<le> 2 powi e" by (intro pow2_mono) simp
    finally have "quantum x \<le> x" using lo by simp
    then show ?thesis by (simp add: le_divide_eq)
  next
    case False
    then have "quantum x = 2 powi (- 1074)" by (simp add: q max_def)
    then show ?thesis using assms by (simp add: le_divide_eq)
  qed
  then have "1 / 2 < x / quantum x" by linarith
  then have "1 \<le> round_half_even (x / quantum x)" by (rule rhe_ge_one)
  then have "0 < of_int (round_half_even (x / quantum x)) * quantum x"
    by (intro mult_pos_pos) simp_all
  then show ?thesis using pos by (simp add: fl_def)
qed

lemma fl_grid: "\<exists>k::int. fl x = of_int k * 2 powi (- 1074)"
proof (cases "x = 0")
  case True
  then show ?thesis by (intro exI [of _ 0]) (simp add: fl_def)
next
  case False
  define m where "m = max (ilog2 \<bar>x\<bar>) (- 1022) - 52"
  have m: "- 1074 \<le> m" by (simp add: m_def)
  have "(2::rat) powi m = 2 powi (m + 1074) * 2 powi (- 1074)"
    using power_int_add [of "2::rat" "m + 1074" "- 1074"] by simp
  also have "(2::rat) powi (m + 1074) = of_int (2 ^ nat (m + 1074))"
    using m by (intro pow2_of_nat) simp
  finally have "quantum x = of_int (2 ^ nat (m + 1074)) * 2 powi (- 1074)"
    by (simp add: quantum_def m_def)
  then have "fl x = of_int (round_half_even (x / quantum x) * 2 ^ nat (m + 1074)) * 2 powi (- 1074)"
    using False by (simp add: fl_def)
  then show ?thesis by blast
qed

lemma is_positive_to_number: "is_positive (to_number d) = (0 < fl d)"
  by (simp add: to_number_def Let_def)

lemma is_double_fl: "is_double x \<Longrightarrow> fl x = x"
  by (auto simp: is_double_def to_number_def Let_def split: if_splits)

lemma double_difference_sign:
  assumes "is_double a" and "is_double b"
  shows "(0 < fl (a - b)) = (b < a)"
proof
  assume "0 < fl (a - b)"
  then show "b < a" using fl_sign(2) [of "a - b"] by (cases "b < a") auto
next
  assume less: "b < a"
  obtain k where k: "a = of_int k * 2 powi (- 1074)"
    using fl_grid [of a] is_double_fl [OF assms(1)] by auto
  obtain l where l: "b = of_int l * 2 powi (- 1074)"
    using fl_grid [of b] is_double_fl [OF assms(2)] by auto
  have "of_int l * (2::rat) powi (- 1074) < of_int k * 2 powi (- 1074)"
    using less k l by simp
  then have "(of_int l :: rat) < of_int k" by (simp add: mult_less_cancel_right)
  then have "l + 1 \<le> k" by simp
  then have "(of_int (l + 1) :: rat) \<le> of_int k" by (simp only: of_int_le_iff)
  then have "of_int (l + 1) * (2::rat) powi (- 1074) \<le> of_int k * 2 powi (- 1074)"
    by (intro mult_right_mono) simp_all
  then have "2 powi (- 1074) \<le> a - b"
    unfolding k l by (simp add: algebra_simps)
  then show "0 < fl (a - b)" by (rule fl_pos)
qed

lemma compare_doubles:
  assumes "is_double a" and "is_double b"
  shows "is_positive (compareFn (Num a) (Num b)) = (b < a)"
  using double_difference_sign [OF assms]
  by (simp add: compareFn_def js_sub_def is_positive_to_number)

lemma insert_by_doubles:
  assumes "is_double x" and "\<forall>y \<in> set ys. is_double y"
  shows "insert_by compareFn (Num x) (map Num ys) = map Num (insort x ys)"
  using assms(2)
  by (induction ys) (auto simp: compare_doubles [OF assms(1)])

lemma js_sort_doubles:
  assumes "\<forall>x \<in> set xs. is_double x"
  shows "js_sort compareFn (map Num xs) = map Num (sort xs)"
  using assms
proof (induction xs)
  case Nil
  then show ?case by (simp add: js_sort_def)
next
  case (Cons x xs)
  then have ih: "foldr (insert_by compareFn) (map Num xs) [] = map Num (sort xs)"
    by (simp add: js_sort_def)
  have "\<forall>y \<in> set (sort xs). is_double y" using Cons.prems by simp
  then show ?case
    using Cons.prems by (simp add: js_sort_def ih insert_by_doubles)
qed
lemma ilog2_less:
  assumes "0 < x" and "x < 2 powi n"
  shows "ilog2 x < n"
proof (rule ccontr)
  assume "\<not> ilog2 x < n"
  then have "(2::rat) powi n \<le> 2 powi (ilog2 x)" by (intro pow2_mono) simp
  with ilog2_bounds [OF assms(1)] assms(2) show False by linarith
qed

lemma ilog2_ge:
  assumes "2 powi n \<le> x"
  shows "n \<le> ilog2 x"
proof (rule ccontr)
  have pos: "0 < x" using assms pow2_pos [of n] by linarith
  assume "\<not> n \<le> ilog2 x"
  then have "(2::rat) powi (ilog2 x + 1) \<le> 2 powi n" by (intro pow2_mono) simp
  with ilog2_bounds [OF pos] assms show False by linarith
qed

lemma fl_exact:
  assumes x: "x = of_int m * 2 powi j" and m: "\<bar>m\<bar> \<le> 2 ^ 53" and j: "- 1074 \<le> j"
  shows "fl x = x"
proof (cases "x = 0")
  case True
  then show ?thesis by (simp add: fl_def)
next
  case False
  define e where "e = ilog2 \<bar>x\<bar>"
  define M where "M = max e (- 1022)"
  have q: "quantum x = 2 powi (M - 52)" by (simp add: quantum_def M_def e_def)
  have pos: "0 < \<bar>x\<bar>" using False by simp
  have absx: "\<bar>x\<bar> = of_int \<bar>m\<bar> * 2 powi j"
    by (simp add: x abs_mult)
  have "(of_int \<bar>m\<bar> :: rat) \<le> of_int (2 ^ 53)" using m by (simp only: of_int_le_iff)
  then have "\<bar>x\<bar> \<le> 2 ^ 53 * 2 powi j"
    unfolding absx by (intro mult_right_mono) simp_all
  also have "\<dots> = 2 powi (j + 53)"
    using power_int_add [of "2::rat" j 53] by simp
  finally have top: "\<bar>x\<bar> \<le> 2 powi (j + 53)" .
  have low: "2 powi e \<le> \<bar>x\<bar>" using ilog2_bounds [OF pos] by (simp add: e_def)
  have "\<exists>k::int. x / quantum x = of_int k"
  proof (cases "0 \<le> j - M + 52")
    case True
    have "x / quantum x = x / 2 powi (M - 52)"
      by (simp only: q)
    also have "\<dots> = of_int m * (2 powi j / 2 powi (M - 52))"
      by (simp add: x)
    also have "2 powi j / 2 powi (M - 52) = (2::rat) powi (j - M + 52)"
      using pow2_diff [of j "M - 52"] by (simp add: algebra_simps)
    also have "\<dots> = of_int (2 ^ nat (j - M + 52))"
      using True by (rule pow2_of_nat)
    finally have "x / quantum x = of_int (m * 2 ^ nat (j - M + 52))" by simp
    then show ?thesis by blast
  next
    case False
    then have Me: "M = e" and ej: "j + 53 \<le> e"
      using j unfolding M_def max_def by (auto split: if_splits)
    have "(2::rat) powi (j + 53) \<le> 2 powi e" using ej by (rule pow2_mono)
    with top low have eq: "\<bar>x\<bar> = 2 powi e" by linarith
    have "\<bar>x\<bar> / quantum x = 2 powi e / 2 powi (e - 52)" by (simp add: eq q Me)
    also have "\<dots> = 2 powi 52"
      using pow2_diff [of e "e - 52"] by simp
    finally have a: "\<bar>x\<bar> / quantum x = of_int (2 ^ 52)" by simp
    show ?thesis
    proof (cases "0 \<le> x")
      case True
      with a show ?thesis by (intro exI [of _ "2 ^ 52"]) simp
    next
      case False
      then have "x / quantum x = - (\<bar>x\<bar> / quantum x)" by simp
      with a show ?thesis by (intro exI [of _ "- (2 ^ 52)"]) simp
    qed
  qed
  then obtain k :: int where k: "x / quantum x = of_int k" ..
  then have "x = of_int k * quantum x"
    using quantum_pos [of x] by (simp add: field_simps)
  then show ?thesis using False k by (simp add: fl_def)
qed

lemma is_double_scaled:
  assumes m: "\<bar>m\<bar> \<le> 2 ^ 53" and j: "- 1074 \<le> j" "j \<le> 970"
  shows "is_double (of_int m * 2 powi j)"
proof -
  define x :: rat where "x = of_int m * 2 powi j"
  have ex: "fl x = x" using x_def m j(1) by (rule fl_exact)
  have "ilog2 \<bar>x\<bar> < 1024"
  proof (cases "x = 0")
    case True
    then show ?thesis by (simp add: ilog2_def bitlen_alt_def Let_def)
  next
    case False
    then have pos: "0 < \<bar>x\<bar>" by simp
    have "(of_int \<bar>m\<bar> :: rat) \<le> of_int (2 ^ 53)" using m by (simp only: of_int_le_iff)
    then have "\<bar>x\<bar> \<le> 2 ^ 53 * 2 powi j"
      unfolding x_def abs_mult by (simp add: mult_right_mono)
    also have "\<dots> = 2 powi (j + 53)"
      using power_int_add [of "2::rat" j 53] by simp
    also have "\<dots> < 2 powi 1024" using j(2) by (intro pow2_strict_mono) simp
    finally show ?thesis using pos by (intro ilog2_less) simp_all
  qed
  then show ?thesis
    by (simp add: is_double_def to_number_def ex x_def [symmetric])
qed

lemma is_double_int:
  assumes "\<bar>m\<bar> \<le> 2 ^ 53"
  shows "is_double (of_int m)"
  using is_double_scaled [OF assms, of 0] by simp

lemma to_number_int:
  assumes "\<bar>m\<bar> \<le> 2 ^ 53"
  shows "to_number (of_int m) = Num (of_int m)"
  using is_double_int [OF assms] by (simp add: is_double_def)

section \<open>The estimate fetch: fallback and time bounds\<close>

lemma string_replace_sample:
  "string_replace ''<chain_id>'' ''1'' ''http://eip-1559.endpoint/<chain_id>'' =
     ''http://eip-1559.endpoint/1''"
  by simp

lemma sample_fields:
  "getCurrentNetworkLegacyGasAPICompatibility sampleCollaborators = Inr False"
  "getChainId sampleCollaborators = Inr ''1''"
  "fetchGasEstimates sampleCollaborators = (\<lambda>url client. Inr sampleEstimates)"
  "fetchEthGasPriceEstimate sampleCollaborators = Inr \<lparr> gasPrice = ''1'' \<rparr>"
  "calculateTimeEstimate sampleCollaborators =
     (\<lambda>maxPriorityFeePerGas maxFeePerGas estimates. Inr sampleTimeBounds)"
  "fetchFeeHistory_injected sampleCollaborators =
     (\<lambda>numberOfBlocks percentiles. Inr (sampleFeeHistory 100 200))"
  "EIP1559APIEndpoint sampleCollaborators = ''http://eip-1559.endpoint/<chain_id>''"
  "clientId sampleCollaborators = None"
  by (simp_all add: sampleCollaborators_def)

lemma failingFeeMarket_fields:
  "getCurrentNetworkLegacyGasAPICompatibility failingFeeMarket = Inr False"
  "getChainId failingFeeMarket = Inr ''1''"
  "fetchGasEstimates failingFeeMarket = (\<lambda>url client. Inl (Error ''fetch failed''))"
  "fetchEthGasPriceEstimate failingFeeMarket = Inr \<lparr> gasPrice = ''1'' \<rparr>"
  "EIP1559APIEndpoint failingFeeMarket = ''http://eip-1559.endpoint/<chain_id>''"
  "clientId failingFeeMarket = None"
  by (simp_all add: failingFeeMarket_def sampleCollaborators_def)

lemma compat_sample: "getEIP1559Compatibility sampleCollaborators"
  by (simp add: getEIP1559Compatibility_def sampleCollaborators_def)

lemma compat_failingFeeMarket: "getEIP1559Compatibility failingFeeMarket"
  by (simp add: getEIP1559Compatibility_def failingFeeMarket_def sampleCollaborators_def)

lemma compat_incompatibleNetwork: "\<not> getEIP1559Compatibility incompatibleNetwork"
  by (simp add: getEIP1559Compatibility_def incompatibleNetwork_def sampleCollaborators_def)

text \<open>
  The primary branch fails exactly in the listed ways: the fee-market fetch or the time
  estimate after it throws, the legacy fetch throws, or neither source is compatible.
\<close>

lemma primaryBranch_fails_iff:
  "(\<exists>e. fst (primaryBranch env st compatible legacyOk chainId) = Inl e) \<longleftrightarrow>
     (compatible \<and>
        (case fetchGasEstimates env
                (string_replace ''<chain_id>'' chainId (EIP1559APIEndpoint env)) (clientId env) of
           Inl e \<Rightarrow> True
         | Inr estimates \<Rightarrow>
             (\<exists>e. getTimeEstimate env st (suggestedMaxPriorityFeePerGas (medium estimates))
                    (suggestedMaxFeePerGas (medium estimates)) = Inl e))) \<or>
     (\<not> compatible \<and> legacyOk \<and>
        (\<exists>e. fetchLegacyGasPriceEstimates env
                (string_replace ''<chain_id>'' chainId (legacyAPIEndpoint env)) (clientId env) = Inl e)) \<or>
     (\<not> compatible \<and> \<not> legacyOk)"
  by (auto simp: primaryBranch_def Let_def split: sum.splits)

lemma primaryBranch_calls:
  "snd (primaryBranch env st compatible legacyOk chainId) =
     (if compatible
      then [CallFetchGasEstimates
              (string_replace ''<chain_id>'' chainId (EIP1559APIEndpoint env)) (clientId env)]
      else if legacyOk
      then [CallFetchLegacyGasPriceEstimates
              (string_replace ''<chain_id>'' chainId (legacyAPIEndpoint env)) (clientId env)]
      else [])"
  by (auto simp: primaryBranch_def Let_def split: sum.splits)

text \<open>
  C2. Whenever the chosen primary branch fails, the single \<open>eth_gasPrice\<close> probe is made,
  once and last, and no legacy fetch follows a fee-market failure. If the probe succeeds the
  result has type \<open>eth_gasPrice\<close> (and is committed when \<open>shouldUpdateState\<close> holds); if it
  fails too, the operation throws and the state of the controller is the one before.
\<close>

theorem fallback_after_primary_failure:
  assumes legacy: "getCurrentNetworkLegacyGasAPICompatibility env = Inr legacyOk"
    and chain: "getChainId env = Inr chainId"
    and fails: "fst (primaryBranch env st (getEIP1559Compatibility env) legacyOk chainId) = Inl e"
  shows "case fetchGasFeeEstimateData env shouldUpdateState st of
           (outcome, calls, st') \<Rightarrow>
             calls = snd (primaryBranch env st (getEIP1559Compatibility env) legacyOk chainId)
                       @ [CallFetchEthGasPriceEstimate] \<and>
             (getEIP1559Compatibility env \<longrightarrow>
                (\<forall>url client. CallFetchLegacyGasPriceEstimates url client \<notin> set calls)) \<and>
             (case fetchEthGasPriceEstimate env of
                Inr estimates \<Rightarrow>
                  outcome = Inr \<lparr> gasFeeEstimates = EthGasPriceEstimates estimates,
                                  estimatedGasFeeTimeBounds = None,
                                  gasEstimateType = ETH_GASPRICE \<rparr> \<and>
                  st' = (if shouldUpdateState
                         then st\<lparr> gasFeeEstimates := EthGasPriceEstimates estimates,
                                  estimatedGasFeeTimeBounds := None,
                                  gasEstimateType := ETH_GASPRICE \<rparr>
                         else st)
              | Inl err \<Rightarrow>
                  outcome = Inl (Error (''Gas fee/price estimation failed. Message: '' @ message err)) \<and>
                  st' = st)"
proof -
  obtain cs where primary:
    "primaryBranch env st (getEIP1559Compatibility env) legacyOk chainId = (Inl e, cs)"
    using fails by (cases "primaryBranch env st (getEIP1559Compatibility env) legacyOk chainId") auto
  have cs: "getEIP1559Compatibility env \<Longrightarrow> CallFetchLegacyGasPriceEstimates url client \<notin> set cs"
    for url client
    using primaryBranch_calls [of env st "getEIP1559Compatibility env" legacyOk chainId] primary
    by (auto split: if_splits)
  show ?thesis
    using cs
    by (auto simp: fetchGasFeeEstimateData_def legacy chain primary fallbackBranch_def
        commitEstimates_def Let_def split: sum.splits)
qed

theorem fallback_after_primary_failure_witness:
  "fetchGasFeeEstimateData failingFeeMarket True defaultState =
     (Inr \<lparr> gasFeeEstimates = EthGasPriceEstimates \<lparr> gasPrice = ''1'' \<rparr>,
            estimatedGasFeeTimeBounds = None,
            gasEstimateType = ETH_GASPRICE \<rparr>,
      [CallFetchGasEstimates ''http://eip-1559.endpoint/1'' None, CallFetchEthGasPriceEstimate],
      defaultState\<lparr> gasFeeEstimates := EthGasPriceEstimates \<lparr> gasPrice = ''1'' \<rparr>,
                    estimatedGasFeeTimeBounds := None,
                    gasEstimateType := ETH_GASPRICE \<rparr>)"
proof -
  note legacy = failingFeeMarket_fields(1)
  note chain = failingFeeMarket_fields(2)
  have primary:
    "primaryBranch failingFeeMarket defaultState (getEIP1559Compatibility failingFeeMarket) False ''1'' =
       (Inl (Error ''fetch failed''), [CallFetchGasEstimates ''http://eip-1559.endpoint/1'' None])"
    by (simp add: primaryBranch_def compat_failingFeeMarket failingFeeMarket_fields)
  have fails:
    "fst (primaryBranch failingFeeMarket defaultState (getEIP1559Compatibility failingFeeMarket)
            False ''1'') = Inl (Error ''fetch failed'')"
    by (simp add: primary)
  note probe = failingFeeMarket_fields(4)
  show ?thesis
    using fallback_after_primary_failure [OF legacy chain fails, of True]
    by (cases "fetchGasFeeEstimateData failingFeeMarket True defaultState")
      (simp add: primary probe)
qed

text \<open>
  C9, as the code has it. When the fee-market branch succeeds the result has type
  \<open>fee-market\<close> and carries the fetched estimates. Its time bounds come from the state
  before the fetch: if that state already has type \<open>fee-market\<close>, they are what
  \<open>calculateTimeEstimate\<close> answers for the medium tier's two fees of the fetched estimates
  and the estimates stored before; otherwise they are the empty object.
\<close>

theorem fee_market_time_bounds:
  assumes legacy: "getCurrentNetworkLegacyGasAPICompatibility env = Inr legacyOk"
    and chain: "getChainId env = Inr chainId"
    and compat: "getEIP1559Compatibility env"
    and fetched: "fetchGasEstimates env
                    (string_replace ''<chain_id>'' chainId (EIP1559APIEndpoint env)) (clientId env)
                  = Inr estimates"
    and timed: "gasEstimateType st = FEE_MARKET \<longrightarrow>
                  calculateTimeEstimate env (suggestedMaxPriorityFeePerGas (medium estimates))
                    (suggestedMaxFeePerGas (medium estimates)) (gasFeeEstimates st) = Inr bounds"
  shows "case fetchGasFeeEstimateData env shouldUpdateState st of
           (outcome, calls, st') \<Rightarrow>
             outcome = Inr \<lparr> gasFeeEstimates = FeeMarketEstimates estimates,
                             estimatedGasFeeTimeBounds =
                               (if gasEstimateType st = FEE_MARKET then Some bounds else None),
                             gasEstimateType = FEE_MARKET \<rparr> \<and>
             st' = (if shouldUpdateState
                    then st\<lparr> gasFeeEstimates := FeeMarketEstimates estimates,
                             estimatedGasFeeTimeBounds :=
                               (if gasEstimateType st = FEE_MARKET then Some bounds else None),
                             gasEstimateType := FEE_MARKET \<rparr>
                    else st)"
  using timed
  by (auto simp: fetchGasFeeEstimateData_def legacy chain compat fetched primaryBranch_def
      getTimeEstimate_def commitEstimates_def Let_def split: sum.splits)

lemma sample_reaches_fee_market:
  "fetchGasEstimates sampleCollaborators
     (string_replace ''<chain_id>'' ''1'' (EIP1559APIEndpoint sampleCollaborators))
     (clientId sampleCollaborators) = Inr sampleEstimates"
  by (simp add: sample_fields)

theorem fee_market_time_bounds_witness:
  "fetchGasFeeEstimateData sampleCollaborators True
     (defaultState\<lparr> gasFeeEstimates := FeeMarketEstimates sampleEstimates,
                    gasEstimateType := FEE_MARKET \<rparr>) =
     (Inr \<lparr> gasFeeEstimates = FeeMarketEstimates sampleEstimates,
            estimatedGasFeeTimeBounds = Some sampleTimeBounds,
            gasEstimateType = FEE_MARKET \<rparr>,
      [CallFetchGasEstimates ''http://eip-1559.endpoint/1'' None],
      defaultState\<lparr> gasFeeEstimates := FeeMarketEstimates sampleEstimates,
                    estimatedGasFeeTimeBounds := Some sampleTimeBounds,
                    gasEstimateType := FEE_MARKET \<rparr>)"
proof -
  let ?st = "defaultState\<lparr> gasFeeEstimates := FeeMarketEstimates sampleEstimates,
                           gasEstimateType := FEE_MARKET \<rparr>"
  have timed: "gasEstimateType ?st = FEE_MARKET \<longrightarrow>
      calculateTimeEstimate sampleCollaborators
        (suggestedMaxPriorityFeePerGas (medium sampleEstimates))
        (suggestedMaxFeePerGas (medium sampleEstimates)) (gasFeeEstimates ?st) = Inr sampleTimeBounds"
    by (simp add: sample_fields)
  have calls: "fst (snd (fetchGasFeeEstimateData sampleCollaborators True ?st)) =
      [CallFetchGasEstimates ''http://eip-1559.endpoint/1'' None]"
    by (simp add: fetchGasFeeEstimateData_def primaryBranch_def getTimeEstimate_def compat_sample
        sample_fields defaultState_def)
  show ?thesis
    using fee_market_time_bounds [OF sample_fields(1,2) compat_sample
        sample_reaches_fee_market timed, of True] calls
    by (cases "fetchGasFeeEstimateData sampleCollaborators True ?st")
      (simp add: defaultState_def)
qed

text \<open>
  On the first fetch of a controller in its default state the fee-market branch succeeds
  with empty time bounds, although the time estimation answers \<open>sampleTimeBounds\<close> for the
  medium tier's fees of the fetched estimates.
\<close>

theorem fee_market_time_bounds_counterexample:
  "fetchGasFeeEstimateData sampleCollaborators True defaultState =
     (Inr \<lparr> gasFeeEstimates = FeeMarketEstimates sampleEstimates,
            estimatedGasFeeTimeBounds = None,
            gasEstimateType = FEE_MARKET \<rparr>,
      [CallFetchGasEstimates ''http://eip-1559.endpoint/1'' None],
      defaultState\<lparr> gasFeeEstimates := FeeMarketEstimates sampleEstimates,
                    estimatedGasFeeTimeBounds := None,
                    gasEstimateType := FEE_MARKET \<rparr>) \<and>
   calculateTimeEstimate sampleCollaborators
     (suggestedMaxPriorityFeePerGas (medium sampleEstimates))
     (suggestedMaxFeePerGas (medium sampleEstimates))
     (FeeMarketEstimates sampleEstimates) = Inr sampleTimeBounds \<and>
   None \<noteq> Some sampleTimeBounds"
  by (simp add: fetchGasFeeEstimateData_def primaryBranch_def getTimeEstimate_def compat_sample
      commitEstimates_def sample_fields defaultState_def)

section \<open>The congestion flag in the state\<close>

text \<open>
  C10, as the code has it. On a fee-market compatible network every invocation that gets a
  fee history writes the boolean it returns into \<open>isNetworkCongested\<close> and touches nothing
  else; one whose fetch throws leaves the state alone. On an incompatible network it
  returns \<open>false\<close> and writes nothing: the flag keeps the value it had.
\<close>

theorem congestion_flag_written_when_compatible:
  "(getEIP1559Compatibility env \<longrightarrow>
      (case fetchFeeHistory_injected env 100 [50] of
         Inl e \<Rightarrow> determineWhetherNetworkCongested env st = (Inl e, st)
       | Inr feeHistory \<Rightarrow>
           (case determineWhetherNetworkCongested env st of
              (Inr congested, st') \<Rightarrow> st' = st\<lparr> isNetworkCongested := congested \<rparr>
            | (Inl e, st') \<Rightarrow> False))) \<and>
   (\<not> getEIP1559Compatibility env \<longrightarrow>
      determineWhetherNetworkCongested env st = (Inr False, st))"
  by (auto simp: determineWhetherNetworkCongested_def Let_def split: sum.splits)

lemma sample_congested:
  "fst (determineWhetherNetworkCongested sampleCollaborators defaultState) = Inr True"
  by code_simp

theorem congestion_flag_written_when_compatible_witness:
  "determineWhetherNetworkCongested sampleCollaborators defaultState =
     (Inr True, defaultState\<lparr> isNetworkCongested := True \<rparr>)"
  using congestion_flag_written_when_compatible [of sampleCollaborators defaultState]
    compat_sample sample_congested
  by (cases "determineWhetherNetworkCongested sampleCollaborators defaultState")
    (auto simp: sample_fields split: sum.splits)

text \<open>
  On an incompatible network the invocation returns \<open>false\<close> while the state keeps the
  flag \<open>true\<close> it had: the returned boolean is not written.
\<close>

theorem congestion_flag_written_counterexample:
  "determineWhetherNetworkCongested incompatibleNetwork
     (defaultState\<lparr> isNetworkCongested := True \<rparr>) =
     (Inr False, defaultState\<lparr> isNetworkCongested := True \<rparr>) \<and>
   isNetworkCongested (defaultState\<lparr> isNetworkCongested := True \<rparr>) \<noteq> False"
  by (simp add: determineWhetherNetworkCongested_def compat_incompatibleNetwork)

section \<open>Empty responses of the fee history\<close>

text \<open>
  C6. If any of the three arrays of the response is empty, both exports of
  \<open>fetchFeeHistory\<close> return the start block of the response with no blocks, not an error.
\<close>

theorem empty_response_gives_no_blocks:
  assumes "response_baseFeePerGas response = [] \<or> response_gasUsedRatio response = [] \<or>
           reward response = []"
  shows "(ethQuery (decToHex numberOfBlocks)
            (case endBlock of None \<Rightarrow> ''latest'' | Some b \<Rightarrow> b)
            (sort (remdups percentiles)) = Inr response \<longrightarrow>
          fetchFeeHistory ethQuery endBlock numberOfBlocks percentiles =
            Inr \<lparr> startBlockId = oldestBlock response, blocks = [] \<rparr>) \<and>
         (ethQuery (decToHex numberOfBlocks)
            (case endBlock of None \<Rightarrow> ''latest'' | Some b \<Rightarrow> b) percentiles = Inr response \<longrightarrow>
          fetchFeeHistory_named ethQuery endBlock numberOfBlocks percentiles =
            Inr \<lparr> startBlockId = oldestBlock response, blocks = [] \<rparr>)"
  using assms by (auto simp: fetchFeeHistory_def fetchFeeHistory_named_def Let_def)

theorem empty_response_gives_no_blocks_witness:
  "fetchFeeHistory (\<lambda>count endBlock percentiles. Inr emptyResponse) None 5 [10, 20, 30] =
     Inr \<lparr> startBlockId = ''0x0'', blocks = [] \<rparr> \<and>
   fetchFeeHistory_named (\<lambda>count endBlock percentiles. Inr emptyResponse) None 5 [10, 20, 30] =
     Inr \<lparr> startBlockId = ''0x0'', blocks = [] \<rparr>"
proof -
  have empty: "response_baseFeePerGas emptyResponse = [] \<or>
      response_gasUsedRatio emptyResponse = [] \<or> reward emptyResponse = []"
    by (simp add: emptyResponse_def)
  have start: "oldestBlock emptyResponse = ''0x0''"
    by (simp add: emptyResponse_def)
  show ?thesis
    using empty_response_gives_no_blocks [OF empty,
        of "\<lambda>count endBlock percentiles. Inr emptyResponse" 5 None "[10, 20, 30]"]
    by (simp add: start)
qed

section \<open>Subscribing to the poll queue\<close>

lemma stopPolling_is_new:
  "stopPolling c = (newController (intervalDelay c) (world c))\<lparr> invocations := invocations c \<rparr>"
  by (simp add: stopPolling_def pausePolling_def newController_def)

lemma subscribe_unqueued:
  assumes "item \<notin> set (pollQueue c)"
  shows "updateWithAndStartPollingFor producers item c =
           (case producers item (world c) of
              (Inl e, w) \<Rightarrow> (Inl e, c\<lparr> world := w, invocations := invocations c @ [item] \<rparr>)
            | (Inr u, w) \<Rightarrow>
                (Inr (), c\<lparr> world := w, invocations := invocations c @ [item],
                           pollQueue := pollQueue c @ [item],
                           intervalId := (case intervalId c of None \<Rightarrow> Some (intervalDelay c)
                                          | Some t \<Rightarrow> Some t) \<rparr>))"
  using assms
  by (auto simp: updateWithAndStartPollingFor_def invoke_def startPolling_def
      scheduleNextPoll_def set_add_def split: prod.splits sum.splits option.splits)

lemma subscribe_queued:
  assumes "item \<in> set (pollQueue c)"
  shows "updateWithAndStartPollingFor producers item c = (Inr (), c)"
  using assms by (simp add: updateWithAndStartPollingFor_def)

text \<open>
  A subscription whose producer throws does not queue the item: the next subscription
  invokes the producer again.
\<close>

lemma failed_subscribe_not_queued:
  assumes "item \<notin> set (pollQueue c)"
    and "updateWithAndStartPollingFor producers item c = (Inl e, c1)"
  shows "item \<notin> set (pollQueue c1) \<and> invocations c1 = invocations c @ [item]"
  using assms
  by (auto simp: subscribe_unqueued split: prod.splits sum.splits)

text \<open>
  C8. For an item that is not queued, \<open>updateWithAndStartPollingFor\<close> applies the item's
  producer to the state once. If the producer returns, the item is queued and the timer
  runs; a second call right after changes nothing, so the producer has been applied
  exactly once in total; after \<open>stopPolling\<close>, which leaves a newly built controller with
  the state reached, a later call applies the producer once more, to that state, and does
  what the first-ever call on that newly built controller does. If the producer throws,
  the call throws the same, the item is not queued, and a second call applies the producer
  again.
\<close>

theorem subscribe_is_idempotent_until_stopped:
  assumes fresh: "item \<notin> set (pollQueue c)"
  shows "(case producers item (world c) of
            (Inr u, w1) \<Rightarrow>
              (let c1 = c\<lparr> world := w1,
                            pollQueue := pollQueue c @ [item],
                            intervalId := Some (case intervalId c of None \<Rightarrow> intervalDelay c
                                                | Some delay \<Rightarrow> delay),
                            invocations := invocations c @ [item] \<rparr>
               in updateWithAndStartPollingFor producers item c = (Inr (), c1) \<and>
                  updateWithAndStartPollingFor producers item c1 = (Inr (), c1) \<and>
                  stopPolling c1 =
                    \<lparr> world = w1, pollQueue = [], intervalId = None,
                      intervalDelay = intervalDelay c, invocations = invocations c @ [item] \<rparr> \<and>
                  updateWithAndStartPollingFor producers item (stopPolling c1) =
                    (case producers item w1 of
                       (Inr u', w2) \<Rightarrow>
                         (Inr (),
                          \<lparr> world = w2, pollQueue = [item], intervalId = Some (intervalDelay c),
                            intervalDelay = intervalDelay c,
                            invocations = invocations c @ [item, item] \<rparr>)
                     | (Inl e, w2) \<Rightarrow>
                         (Inl e,
                          \<lparr> world = w2, pollQueue = [], intervalId = None,
                            intervalDelay = intervalDelay c,
                            invocations = invocations c @ [item, item] \<rparr>)) \<and>
                  updateWithAndStartPollingFor producers item
                      (newController (intervalDelay c) w1) =
                    (case producers item w1 of
                       (Inr u', w2) \<Rightarrow>
                         (Inr (),
                          \<lparr> world = w2, pollQueue = [item], intervalId = Some (intervalDelay c),
                            intervalDelay = intervalDelay c, invocations = [item] \<rparr>)
                     | (Inl e, w2) \<Rightarrow>
                         (Inl e,
                          \<lparr> world = w2, pollQueue = [], intervalId = None,
                            intervalDelay = intervalDelay c, invocations = [item] \<rparr>)))
          | (Inl e, w1) \<Rightarrow>
              (let c1 = c\<lparr> world := w1, invocations := invocations c @ [item] \<rparr>
               in updateWithAndStartPollingFor producers item c = (Inl e, c1) \<and>
                  updateWithAndStartPollingFor producers item c1 =
                    (case producers item w1 of
                       (Inr u', w2) \<Rightarrow>
                         (Inr (),
                          c\<lparr> world := w2,
                             pollQueue := pollQueue c @ [item],
                             intervalId := Some (case intervalId c of None \<Rightarrow> intervalDelay c
                                                 | Some delay \<Rightarrow> delay),
                             invocations := invocations c @ [item, item] \<rparr>)
                     | (Inl e', w2) \<Rightarrow>
                         (Inl e', c\<lparr> world := w2, invocations := invocations c @ [item, item] \<rparr>))))"
proof (cases "producers item (world c)")
  case (Pair r w1)
  show ?thesis
  proof (cases r)
    case (Inr u)
    define c1 where "c1 = c\<lparr> world := w1,
                            pollQueue := pollQueue c @ [item],
                            intervalId := Some (case intervalId c of None \<Rightarrow> intervalDelay c
                                                | Some delay \<Rightarrow> delay),
                            invocations := invocations c @ [item] \<rparr>"
    have first: "updateWithAndStartPollingFor producers item c = (Inr (), c1)"
      unfolding subscribe_unqueued [OF fresh]
      by (simp add: Pair Inr c1_def split: option.splits)
    have "item \<in> set (pollQueue c1)" by (simp add: c1_def)
    then have second: "updateWithAndStartPollingFor producers item c1 = (Inr (), c1)"
      by (rule subscribe_queued)
    have stopped: "stopPolling c1 =
        \<lparr> world = w1, pollQueue = [], intervalId = None,
          intervalDelay = intervalDelay c, invocations = invocations c @ [item] \<rparr>"
      by (simp add: stopPolling_def pausePolling_def c1_def)
    have unq: "item \<notin> set (pollQueue \<lparr> world = w1, pollQueue = [], intervalId = None,
          intervalDelay = intervalDelay c, invocations = invocations c @ [item] \<rparr>)"
      by simp
    have later: "updateWithAndStartPollingFor producers item (stopPolling c1) =
        (case producers item w1 of
           (Inr u', w2) \<Rightarrow>
             (Inr (),
              \<lparr> world = w2, pollQueue = [item], intervalId = Some (intervalDelay c),
                intervalDelay = intervalDelay c,
                invocations = invocations c @ [item, item] \<rparr>)
         | (Inl e, w2) \<Rightarrow>
             (Inl e,
              \<lparr> world = w2, pollQueue = [], intervalId = None,
                intervalDelay = intervalDelay c,
                invocations = invocations c @ [item, item] \<rparr>))"
      unfolding stopped subscribe_unqueued [OF unq]
      by (simp split: prod.splits sum.splits)
    have unq_new: "item \<notin> set (pollQueue (newController (intervalDelay c) w1))"
      by (simp add: newController_def)
    have first_ever: "updateWithAndStartPollingFor producers item
          (newController (intervalDelay c) w1) =
        (case producers item w1 of
           (Inr u', w2) \<Rightarrow>
             (Inr (),
              \<lparr> world = w2, pollQueue = [item], intervalId = Some (intervalDelay c),
                intervalDelay = intervalDelay c, invocations = [item] \<rparr>)
         | (Inl e, w2) \<Rightarrow>
             (Inl e,
              \<lparr> world = w2, pollQueue = [], intervalId = None,
                intervalDelay = intervalDelay c, invocations = [item] \<rparr>))"
      unfolding subscribe_unqueued [OF unq_new]
      by (simp add: newController_def split: prod.splits sum.splits)
    show ?thesis
      unfolding Pair Inr prod.case sum.case Let_def c1_def [symmetric]
      using first second stopped later first_ever by (intro conjI)
  next
    case (Inl e)
    define c1 where "c1 = c\<lparr> world := w1, invocations := invocations c @ [item] \<rparr>"
    have first: "updateWithAndStartPollingFor producers item c = (Inl e, c1)"
      unfolding subscribe_unqueued [OF fresh]
      by (simp add: Pair Inl c1_def)
    have unq: "item \<notin> set (pollQueue c1)" using fresh by (simp add: c1_def)
    have second: "updateWithAndStartPollingFor producers item c1 =
        (case producers item w1 of
           (Inr u', w2) \<Rightarrow>
             (Inr (),
              c\<lparr> world := w2,
                 pollQueue := pollQueue c @ [item],
                 intervalId := Some (case intervalId c of None \<Rightarrow> intervalDelay c
                                     | Some delay \<Rightarrow> delay),
                 invocations := invocations c @ [item, item] \<rparr>)
         | (Inl e', w2) \<Rightarrow>
             (Inl e', c\<lparr> world := w2, invocations := invocations c @ [item, item] \<rparr>))"
      unfolding subscribe_unqueued [OF unq]
      by (simp add: c1_def split: prod.splits sum.splits option.splits)
    show ?thesis
      unfolding Pair Inl prod.case sum.case Let_def c1_def [symmetric]
      using first second by (intro conjI)
  qed
qed

lemma sample_producer_first:
  "pollableItems sampleCollaborators GasFeeEstimatesItem defaultState =
     (Inr (), defaultState\<lparr> gasFeeEstimates := FeeMarketEstimates sampleEstimates,
                              estimatedGasFeeTimeBounds := None,
                              gasEstimateType := FEE_MARKET \<rparr>)"
  by (simp add: fetchGasFeeEstimateData_def primaryBranch_def getTimeEstimate_def compat_sample
      commitEstimates_def sample_fields defaultState_def)

lemma sample_producer_again:
  "pollableItems sampleCollaborators GasFeeEstimatesItem
     (defaultState\<lparr> gasFeeEstimates := FeeMarketEstimates sampleEstimates,
                     estimatedGasFeeTimeBounds := None,
                     gasEstimateType := FEE_MARKET \<rparr>) =
     (Inr (), defaultState\<lparr> gasFeeEstimates := FeeMarketEstimates sampleEstimates,
                              estimatedGasFeeTimeBounds := Some sampleTimeBounds,
                              gasEstimateType := FEE_MARKET \<rparr>)"
  by (simp add: fetchGasFeeEstimateData_def primaryBranch_def getTimeEstimate_def compat_sample
      commitEstimates_def sample_fields defaultState_def)

theorem subscribe_is_idempotent_until_stopped_witness:
  "(let subscribe = updateWithAndStartPollingFor (pollableItems sampleCollaborators)
                      GasFeeEstimatesItem;
        c1 = \<lparr> world = defaultState\<lparr> gasFeeEstimates := FeeMarketEstimates sampleEstimates,
                                       estimatedGasFeeTimeBounds := None,
                                       gasEstimateType := FEE_MARKET \<rparr>,
               pollQueue = [GasFeeEstimatesItem], intervalId = Some 15000,
               intervalDelay = 15000, invocations = [GasFeeEstimatesItem] \<rparr>
    in subscribe (newController 15000 defaultState) = (Inr (), c1) \<and>
       subscribe c1 = (Inr (), c1) \<and>
       subscribe (stopPolling c1) =
         (Inr (),
          \<lparr> world = defaultState\<lparr> gasFeeEstimates := FeeMarketEstimates sampleEstimates,
                                    estimatedGasFeeTimeBounds := Some sampleTimeBounds,
                                    gasEstimateType := FEE_MARKET \<rparr>,
            pollQueue = [GasFeeEstimatesItem], intervalId = Some 15000,
            intervalDelay = 15000,
            invocations = [GasFeeEstimatesItem, GasFeeEstimatesItem] \<rparr>))"
proof -
  have fresh: "GasFeeEstimatesItem \<notin> set (pollQueue (newController 15000 defaultState))"
    by (simp add: newController_def)
  show ?thesis
    using subscribe_is_idempotent_until_stopped [OF fresh, of "pollableItems sampleCollaborators"]
    by (simp add: newController_def stopPolling_def pausePolling_def
        sample_producer_first sample_producer_again Let_def del: pollableItems.simps)
qed

lemma unreachable_producer:
  "pollableItems unreachableSources GasFeeEstimatesItem st =
     (Inl (Error ''Gas fee/price estimation failed. Message: fetch failed''), st)"
  by (simp add: fetchGasFeeEstimateData_def primaryBranch_def fallbackBranch_def
      getEIP1559Compatibility_def unreachableSources_def sampleCollaborators_def)

text \<open>
  With sources that do not answer, the first call throws and the second call, made after
  it, runs the producer again: two calls, two invocations.
\<close>

theorem subscribe_after_failure_counterexample:
  "(let subscribe = updateWithAndStartPollingFor (pollableItems unreachableSources)
                      GasFeeEstimatesItem;
        failure = Error ''Gas fee/price estimation failed. Message: fetch failed'';
        c1 = \<lparr> world = defaultState, pollQueue = [], intervalId = None,
               intervalDelay = 15000, invocations = [GasFeeEstimatesItem] \<rparr>
    in subscribe (newController 15000 defaultState) = (Inl failure, c1) \<and>
       subscribe c1 =
         (Inl failure, c1\<lparr> invocations := [GasFeeEstimatesItem, GasFeeEstimatesItem] \<rparr>))"
  by (simp add: updateWithAndStartPollingFor_def invoke_def newController_def
      unreachable_producer Let_def del: pollableItems.simps)

section \<open>Hexadecimal decoding\<close>

lemma hexValue_snoc: "hexValue (ds @ [c]) = 16 * hexValue ds + hexDigit c"
  by (simp add: hexValue_def)

lemma hexDigit_nonneg: "0 \<le> hexDigit c"
  by (simp add: hexDigit_def Let_def)

lemma hexValue_nonneg: "0 \<le> hexValue ds"
  by (induction ds rule: rev_induct) (simp_all add: hexValue_snoc hexDigit_nonneg, simp add: hexValue_def)

lemma BN_hex_digits:
  assumes "\<forall>c \<in> set ds. c \<in> set ''0123456789abcdefABCDEF''"
  shows "BN_hex ds = hexValue ds"
proof (cases ds)
  case Nil
  then show ?thesis by (simp add: BN_hex_def hexValue_def)
next
  case (Cons c cs)
  then have "c \<in> set ''0123456789abcdefABCDEF''" using assms by simp
  then have "c \<noteq> CHR ''-''" by auto
  then show ?thesis by (simp add: BN_hex_def Cons)
qed

lemma stripHexPrefix_prefixed: "stripHexPrefix (''0x'' @ ds) = ds"
  by (simp add: stripHexPrefix_def)

text \<open>
  C7, as the code has it. For a string of hexadecimal digits behind the \<open>0x\<close> prefix,
  \<open>hexToDec\<close> returns the Number value of the encoded integer: the integer itself as long
  as it is at most \<open>2 ^ 53\<close>, and the nearest double (or \<open>Infinity\<close>) beyond, since the
  function narrows the arbitrary-precision value to a \<open>number\<close> with \<open>parseInt\<close>.
\<close>

theorem hexToDec_exact_up_to_2_53:
  assumes digits: "\<forall>c \<in> set ds. c \<in> set ''0123456789abcdefABCDEF''"
  shows "hexToDec (''0x'' @ ds) = to_number (of_int (hexValue ds)) \<and>
         (hexValue ds \<le> 2 ^ 53 \<longrightarrow> hexToDec (''0x'' @ ds) = Num (of_int (hexValue ds)))"
proof -
  have eq: "hexToDec (''0x'' @ ds) = to_number (of_int (hexValue ds))"
    by (simp only: hexToDec_def stripHexPrefix_prefixed BN_hex_digits [OF digits]
        parseInt_decimal_def)
  have "to_number (of_int (hexValue ds)) = Num (of_int (hexValue ds))"
    if "hexValue ds \<le> 2 ^ 53"
    using that hexValue_nonneg [of ds] by (intro to_number_int) simp
  with eq show ?thesis by simp
qed

lemma hexValue_sample: "hexValue ''16eb46a3bb'' = 98436555707"
  by code_simp

theorem hexToDec_exact_up_to_2_53_witness:
  "hexToDec ''0x16eb46a3bb'' = Num 98436555707"
proof -
  have digits: "\<forall>c \<in> set ''16eb46a3bb''. c \<in> set ''0123456789abcdefABCDEF''"
    by simp
  have small: "hexValue ''16eb46a3bb'' \<le> 2 ^ 53"
    by (simp add: hexValue_sample)
  have "hexToDec (''0x'' @ ''16eb46a3bb'') = Num (of_int (hexValue ''16eb46a3bb''))"
    using hexToDec_exact_up_to_2_53 [OF digits] small by blast
  then show ?thesis
    by (simp add: hexValue_sample)
qed

text \<open>
  The digits \<open>20000000000001\<close> encode \<open>2 ^ 53 + 1\<close>; \<open>hexToDec\<close> returns \<open>2 ^ 53\<close>.
\<close>

theorem hexToDec_exact_counterexample:
  "hexValue ''20000000000001'' = 9007199254740993 \<and>
   hexToDec ''0x20000000000001'' = Num 9007199254740992"
  by code_simp

section \<open>The congestion threshold\<close>

lemma literal_11_10: "literal (11 / 10) = Num (fl (11 / 10))"
  by code_simp

lemma collected_fees:
  "map the (filter isNumber (map f bs)) = List.map_filter f bs"
  by (induction bs) (auto simp: isNumber_def List.map_filter_simps split: option.splits)

lemma sort_first_last:
  assumes "xs \<noteq> []"
  shows "sort xs ! 0 = Min (set xs)" and "sort xs ! (length xs - 1) = Max (set xs)"
proof -
  have ne: "sort xs \<noteq> []" using assms by (metis length_sort length_0_conv)
  have s: "sorted (sort xs)" by simp
  have "sort xs ! 0 \<in> set (sort xs)"
    using ne by (metis length_greater_0_conv nth_mem)
  moreover have "\<forall>y \<in> set (sort xs). sort xs ! 0 \<le> y"
    using s ne by (metis in_set_conv_nth sorted_nth_mono le0)
  ultimately show "sort xs ! 0 = Min (set xs)"
    by (intro Min_eqI [symmetric]) simp_all
  have "sort xs ! (length xs - 1) \<in> set (sort xs)"
    using ne by (metis diff_less length_greater_0_conv length_sort nth_mem zero_less_one)
  moreover have "\<forall>y \<in> set (sort xs). y \<le> sort xs ! (length xs - 1)"
  proof
    fix y assume "y \<in> set (sort xs)"
    then obtain i where i: "i < length (sort xs)" "sort xs ! i = y"
      by (metis in_set_conv_nth)
    then have "sort xs ! i \<le> sort xs ! (length xs - 1)"
      using s by (intro sorted_nth_mono) simp_all
    with i show "y \<le> sort xs ! (length xs - 1)" by simp
  qed
  ultimately show "sort xs ! (length xs - 1) = Max (set xs)"
    by (intro Max_eqI [symmetric]) simp_all
qed

text \<open>
  C3, as the code has it. On a compatible network, with the priority fees present at the
  50th percentile being the finite numbers \<open>fs\<close>, the check returns true exactly when
  there is at least one fee and the largest is at least the double-precision product of the
  smallest and the literal \<open>1.1\<close>, that is the rounded product with the double nearest
  to 1.1. With no fee it returns false.
\<close>

theorem congestion_threshold:
  assumes compat: "getEIP1559Compatibility env"
    and fetched: "fetchFeeHistory_injected env 100 [50] = Inr feeHistory"
    and fees: "List.map_filter (\<lambda>block. priorityFeesByPercentile block 50) (blocks feeHistory)
                 = map Num fs"
    and doubles: "\<forall>f \<in> set fs. is_double f"
  shows "fst (determineWhetherNetworkCongested env st) =
           Inr (fs \<noteq> [] \<and>
                js_ge (Num (Max (set fs))) (to_number (Min (set fs) * fl (11 / 10))))"
proof -
  have sorted: "js_sort compareFn
      (map the (filter isNumber
         (map (\<lambda>block. priorityFeesByPercentile block 50) (blocks feeHistory)))) =
      map Num (sort fs)"
    by (simp only: collected_fees fees js_sort_doubles [OF doubles])
  show ?thesis
  proof (cases "fs = []")
    case True
    then show ?thesis
      by (simp add: determineWhetherNetworkCongested_def compat fetched sorted)
  next
    case False
    then have len: "0 < length fs" by simp
    have "js_mul (Num (sort fs ! 0)) (literal (11 / 10)) = to_number (Min (set fs) * fl (11 / 10))"
      by (simp add: literal_11_10 sort_first_last(1) [OF False])
    moreover have "sort fs ! (length fs - Suc 0) = Max (set fs)"
      using sort_first_last(2) [OF False] by simp
    moreover have "sort fs \<noteq> []"
      using False by (metis length_sort length_0_conv)
    ultimately show ?thesis
      using False len
      by (simp add: determineWhetherNetworkCongested_def compat fetched sorted Let_def)
  qed
qed

lemma sample_fees:
  "List.map_filter (\<lambda>block. priorityFeesByPercentile block 50)
     (blocks (sampleFeeHistory a b)) = map Num [a, b]"
  by (simp add: sampleFeeHistory_def sampleBlock_def List.map_filter_simps)

lemma threshold_100: "to_number (100 * fl (11 / 10)) = Num (7740561859543041 / 70368744177664)"
  by code_simp

lemma boundary_of_100:
  "\<not> js_ge (Num 109) (to_number (100 * fl (11 / 10)))"
  "\<not> js_ge (Num 110) (to_number (100 * fl (11 / 10)))"
  "js_ge (Num 111) (to_number (100 * fl (11 / 10)))"
  by (simp_all add: threshold_100)

theorem congestion_threshold_witness:
  "fst (determineWhetherNetworkCongested sampleCollaborators defaultState) = Inr True"
proof -
  have doubles: "\<forall>f \<in> set [100, 200 :: rat]. is_double f"
    using is_double_int [of 100] is_double_int [of 200] by simp
  have "fst (determineWhetherNetworkCongested sampleCollaborators defaultState) =
      Inr ([100, 200 :: rat] \<noteq> [] \<and>
           js_ge (Num (Max (set [100, 200]))) (to_number (Min (set [100, 200]) * fl (11 / 10))))"
    using compat_sample _ sample_fees doubles
    by (rule congestion_threshold) (simp add: sample_fields)
  then show ?thesis by (simp add: threshold_100)
qed

lemma boundaryFees_fields:
  "getEIP1559Compatibility boundaryFees"
  "fetchFeeHistory_injected boundaryFees 100 [50] = Inr (sampleFeeHistory 100 110)"
  by (simp_all add: getEIP1559Compatibility_def boundaryFees_def sampleCollaborators_def)

text \<open>
  With the fees 100 and 110 the check answers false: the product \<open>100 * 1.1\<close> is the double
  just above 110 (\<open>threshold_100\<close>), although 110 is 1.10 times 100.
\<close>

theorem congestion_boundary_counterexample:
  "fst (determineWhetherNetworkCongested boundaryFees defaultState) = Inr False \<and>
   (110 :: rat) \<ge> 100 * (11 / 10)"
proof -
  have doubles: "\<forall>f \<in> set [100, 110 :: rat]. is_double f"
    using is_double_int [of 100] is_double_int [of 110] by simp
  have "fst (determineWhetherNetworkCongested boundaryFees defaultState) =
      Inr ([100, 110 :: rat] \<noteq> [] \<and>
           js_ge (Num (Max (set [100, 110]))) (to_number (Min (set [100, 110]) * fl (11 / 10))))"
    using boundaryFees_fields sample_fees doubles by (rule congestion_threshold)
  then show ?thesis by (simp add: threshold_100)
qed

section \<open>The median\<close>

lemma medianOf_doubles:
  assumes doubles: "\<forall>x \<in> set xs. is_double x"
  shows "medianOf (map Num xs) =
           (if xs = [] then NaN
            else if even (length xs)
            then js_div (js_add (Num (sort xs ! (length xs div 2)))
                                (Num (sort xs ! (length xs div 2 - 1)))) (Num 2)
            else Num (sort xs ! ((length xs - 1) div 2)))"
proof -
  define n where "n = length xs"
  have sorted: "js_sort compareFn (map Num xs) = map Num (sort xs)"
    using doubles by (rule js_sort_doubles)
  have len: "length (map Num (sort xs)) = n" by (simp add: n_def)
  show ?thesis
  proof (cases "xs = []")
    case True
    then show ?thesis by (simp add: medianOf_def js_sort_def numberAt_def)
  next
    case False
    then have pos: "0 < n" by (simp add: n_def)
    show ?thesis
    proof (cases "even n")
      case True
      then have two: "2 \<le> n" using pos by presburger
      have m0: "int n mod 2 = 0" using True by presburger
      have hi: "numberAt (map Num (sort xs)) (int n div 2) = Num (sort xs ! (n div 2))"
      proof -
        have "nat (int n div 2) = n div 2" by simp
        moreover have "n div 2 < n" using pos by simp
        moreover have "0 \<le> int n div 2" by simp
        moreover have "int n div 2 < int n" using pos by simp
        ultimately show ?thesis by (simp add: numberAt_def n_def)
      qed
      have lo: "numberAt (map Num (sort xs)) (int n div 2 - 1) = Num (sort xs ! (n div 2 - 1))"
      proof -
        have "nat (int n div 2 - 1) = n div 2 - 1" using two by simp
        moreover have "n div 2 - 1 < n" using pos by simp
        moreover have "0 \<le> int n div 2 - 1" using two by simp
        moreover have "int n div 2 - 1 < int n" using pos by simp
        ultimately show ?thesis by (simp add: numberAt_def n_def)
      qed
      show ?thesis
        using False True m0 hi lo
        by (simp add: medianOf_def sorted Let_def n_def [symmetric] del: js_div.simps js_add.simps)
    next
      case False
      then have m1: "int n mod 2 \<noteq> 0" by presburger
      have "nat ((int n - 1) div 2) = (n - 1) div 2" using pos by simp
      moreover have "(n - 1) div 2 < n" using pos by simp
      ultimately show ?thesis
        using \<open>xs \<noteq> []\<close> False m1
        by (simp add: medianOf_def sorted Let_def n_def [symmetric])
    qed
  qed
qed

lemma mean_of_integers_exact:
  assumes "\<bar>a + b\<bar> \<le> 2 ^ 53"
  shows "js_div (js_add (Num (of_int a)) (Num (of_int b))) (Num 2) =
           Num ((of_int a + of_int b) / 2)"
proof -
  have sum: "to_number (of_int a + of_int b) = Num (of_int (a + b))"
    using to_number_int [OF assms] by simp
  have "is_double (of_int (a + b) * 2 powi (- 1))"
    using assms by (intro is_double_scaled) simp_all
  then have "to_number (of_int (a + b) / 2) = Num (of_int (a + b) / 2)"
    by (simp add: is_double_def power_int_minus field_simps)
  then show ?thesis by (simp add: sum)
qed

text \<open>
  C4. For a list of finite numbers \<open>medianOf\<close> works on the ascending-sorted list: for an
  odd length it is the middle element, for an even length the mean \<open>(x + y) / 2\<close> of the
  two central elements, computed on doubles; for \<open>[a, b]\<close> it is \<open>(a + b) / 2\<close> and for a
  sorted \<open>[a, b, c]\<close> it is \<open>b\<close>. The empty list, which has no central element, gives NaN.
\<close>

theorem medianOf_sorted_middle:
  assumes doubles: "\<forall>x \<in> set xs. is_double x"
  shows "medianOf (map Num xs) =
           (if xs = [] then NaN
            else if even (length xs)
            then js_div (js_add (Num (sort xs ! (length xs div 2)))
                                (Num (sort xs ! (length xs div 2 - 1)))) (Num 2)
            else Num (sort xs ! ((length xs - 1) div 2))) \<and>
         (\<forall>a b. xs = [a, b] \<longrightarrow>
            medianOf (map Num xs) = js_div (js_add (Num a) (Num b)) (Num 2)) \<and>
         (\<forall>a b c. xs = [a, b, c] \<and> a \<le> b \<and> b \<le> c \<longrightarrow> medianOf (map Num xs) = Num b)"
proof -
  note general = medianOf_doubles [OF doubles]
  have pair: "medianOf (map Num xs) = js_div (js_add (Num a) (Num b)) (Num 2)"
    if "xs = [a, b]" for a b
  proof (cases "a \<le> b")
    case True
    then have "sort xs = [a, b]" using that by simp
    then show ?thesis
      using general that by (simp add: add.commute)
  next
    case False
    then have "sort xs = [b, a]" using that by simp
    then show ?thesis
      using general that by simp
  qed
  have triple: "medianOf (map Num xs) = Num b"
    if "xs = [a, b, c]" "a \<le> b" "b \<le> c" for a b c
  proof -
    have "sort xs = [a, b, c]" using that by simp
    then show ?thesis using general that by simp
  qed
  show ?thesis
    using general pair triple by blast
qed

theorem medianOf_sorted_middle_witness:
  "medianOf [Num 3, Num 1] = Num 2 \<and> medianOf [Num 1, Num 2, Num 3] = Num 2"
proof -
  have d2: "\<forall>x \<in> set [3, 1 :: rat]. is_double x"
    using is_double_int [of 3] is_double_int [of 1] by simp
  have d3: "\<forall>x \<in> set [1, 2, 3 :: rat]. is_double x"
    using is_double_int [of 3] is_double_int [of 1] is_double_int [of 2] by simp
  have mean: "js_div (js_add (Num 3) (Num 1)) (Num 2) = Num 2"
    using mean_of_integers_exact [of 3 1] by simp
  have "medianOf (map Num [3, 1]) = js_div (js_add (Num 3) (Num 1)) (Num 2)"
    using medianOf_sorted_middle [OF d2] by blast
  moreover have "medianOf (map Num [1, 2, 3]) = Num 2"
    using medianOf_sorted_middle [OF d3] by simp
  ultimately show ?thesis by (simp add: mean del: js_div.simps js_add.simps)
qed

section \<open>Blocks of the fee history\<close>

lemma collect_all:
  assumes "\<forall>x \<in> set xs. f x = Inr (g x)"
  shows "collect (map f xs) = Inr (map g xs)"
  using assms by (induction xs) simp_all

lemma zip_upt_nth: "zip [0..<length xs] xs = map (\<lambda>i. (i, xs ! i)) [0..<length xs]"
  by (rule nth_equalityI) simp_all

lemma zip3_nth:
  assumes "length xs = n" and "length ys = n" and "length zs = n"
  shows "zip xs (zip ys zs) = map (\<lambda>i. (xs ! i, ys ! i, zs ! i)) [0..<n]"
  using assms by (intro nth_equalityI) simp_all

lemma map_of_rev_distinct:
  assumes "distinct (map fst kvs)"
  shows "map_of (rev kvs) = map_of kvs"
proof -
  have "distinct (map fst (rev kvs))" using assms by (metis distinct_rev rev_map)
  then show ?thesis using assms by (simp add: map_of_inject_set)
qed

lemma assign_cells:
  "foldl (\<lambda>m (i, p). m(p \<mapsto> h i)) m (zip is ps) =
     foldl (\<lambda>m (k, v). m(k \<mapsto> v)) m (zip ps (map h is))"
proof (induction "is" arbitrary: ps m)
  case Nil
  then show ?case by simp
next
  case (Cons i "is")
  then show ?case by (cases ps) simp_all
qed

lemma assign_decoded:
  "foldl (\<lambda>m (k, v). m(k \<mapsto> g v)) m (zip ks vs) =
     foldl (\<lambda>m (k, v). m(k \<mapsto> v)) m (zip ks (map g vs))"
proof (induction ks arbitrary: vs m)
  case Nil
  then show ?case by simp
next
  case (Cons k ks)
  then show ?case by (cases vs) simp_all
qed

lemma assignments_aligned:
  assumes "distinct ks"
  shows "foldl (\<lambda>m (k, v). m(k \<mapsto> v)) Map.empty (zip ks vs) = map_of (zip ks vs)"
proof -
  have "distinct (map fst (zip ks vs))"
    using assms by (simp add: map_fst_zip_take)
  then have "map_of (rev (zip ks vs)) = map_of (zip ks vs)" by (rule map_of_rev_distinct)
  then show ?thesis
    using map_upds_fold_map_upd [of Map.empty ks vs] by (simp add: map_upds_def)
qed

lemma cells_of_row:
  assumes "length row = n"
  shows "map (\<lambda>i. hexToDec_cell (array_get row i)) [0..<n] = map hexToDec row"
  using assms by (intro nth_equalityI) (simp_all add: hexToDec_cell_def array_get_def)

lemma blockOfIndex_aligned:
  assumes i: "i < length rewards" and row: "length (rewards ! i) = length ps"
    and r: "i < length ratios" and d: "distinct ps"
  shows "blockOfIndex ps ratios rewards (i, hex) =
           Inr \<lparr> baseFeePerGas = hexToDec hex, gasUsedRatio = Some (ratios ! i),
                  priorityFeesByPercentile = map_of (zip ps (map hexToDec (rewards ! i))) \<rparr>"
proof -
  have fold: "foldl (\<lambda>m (percentileIndex, percentile).
                 m(percentile \<mapsto> hexToDec_cell (array_get (rewards ! i) percentileIndex)))
               Map.empty (zip [0..<length ps] ps) =
             map_of (zip ps (map hexToDec (rewards ! i)))"
    using assign_cells [of "\<lambda>j. hexToDec_cell (array_get (rewards ! i) j)" Map.empty
        "[0..<length ps]" ps]
      assignments_aligned [OF d, of "map hexToDec (rewards ! i)"]
    by (simp only: cells_of_row [OF row])
  show ?thesis
  proof (cases "ps = []")
    case True
    then show ?thesis using r by (simp add: blockOfIndex_def array_get_def)
  next
    case False
    then show ?thesis
      using i r fold by (simp add: blockOfIndex_def array_get_def)
  qed
qed

lemma blockOfTuple_aligned:
  assumes row: "length row = length ps" and d: "distinct ps"
  shows "blockOfTuple ps (hex, ratio, row) =
           Inr \<lparr> baseFeePerGas = hexToDec hex, gasUsedRatio = Some ratio,
                  priorityFeesByPercentile = map_of (zip ps (map hexToDec row)) \<rparr>"
proof -
  have "foldl (\<lambda>m (percentile, priorityFeeAsHex). m(percentile \<mapsto> hexToDec priorityFeeAsHex))
          Map.empty (zip ps row) = map_of (zip ps (map hexToDec row))"
    using assign_decoded [of hexToDec Map.empty ps row]
      assignments_aligned [OF d, of "map hexToDec row"] by (rule trans)
  then show ?thesis
    using row by (simp add: blockOfTuple_def zipEqualSizedTuples2_def)
qed

text \<open>
  C5. For a non-empty response to a request for \<open>N\<close> blocks, with \<open>N + 1\<close> base fees,
  \<open>N\<close> ratios and \<open>N\<close> reward rows of one cell per percentile, both exports return exactly
  the \<open>N\<close> blocks of \<open>spec_blocks\<close>: built from the first \<open>N\<close> base fees only, each with
  one decoded priority fee for every requested percentile, aligned position by position
  with the percentile list (sorted and without duplicates in the default export; as
  passed, and taken to be distinct, in the named one).
\<close>

theorem fee_history_blocks:
  assumes n: "0 < numberOfBlocks"
    and base: "length (response_baseFeePerGas response) = numberOfBlocks + 1"
    and ratio: "length (response_gasUsedRatio response) = numberOfBlocks"
    and rew: "length (reward response) = numberOfBlocks"
  shows "(ethQuery (decToHex numberOfBlocks)
            (case endBlock of None \<Rightarrow> ''latest'' | Some b \<Rightarrow> b)
            (sort (remdups percentiles)) = Inr response \<and>
          (\<forall>row \<in> set (reward response). length row = length (sort (remdups percentiles))) \<longrightarrow>
          fetchFeeHistory ethQuery endBlock numberOfBlocks percentiles =
            Inr \<lparr> startBlockId = oldestBlock response,
                   blocks = spec_blocks (sort (remdups percentiles)) response numberOfBlocks \<rparr>) \<and>
         (ethQuery (decToHex numberOfBlocks)
            (case endBlock of None \<Rightarrow> ''latest'' | Some b \<Rightarrow> b) percentiles = Inr response \<and>
          distinct percentiles \<and>
          (\<forall>row \<in> set (reward response). length row = length percentiles) \<longrightarrow>
          fetchFeeHistory_named ethQuery endBlock numberOfBlocks percentiles =
            Inr \<lparr> startBlockId = oldestBlock response,
                   blocks = spec_blocks percentiles response numberOfBlocks \<rparr>) \<and>
         (\<forall>ps. length (spec_blocks ps response numberOfBlocks) = numberOfBlocks \<and>
           ((\<forall>row \<in> set (reward response). length row = length ps) \<longrightarrow>
            (\<forall>block \<in> set (spec_blocks ps response numberOfBlocks).
               dom (priorityFeesByPercentile block) = set ps)))"
proof -
  let ?base = "response_baseFeePerGas response"
  let ?N = numberOfBlocks
  have nonempty: "length ?base > 0 \<and> length (response_gasUsedRatio response) > 0 \<and>
      length (reward response) > 0"
    using n base ratio rew by simp
  define hexes where "hexes = take ?N ?base"
  have taken: "length hexes = ?N" using base by (simp add: hexes_def)
  have hex_nth: "hexes ! i = ?base ! i" if "i < ?N" for i
    using that by (simp add: hexes_def)
  have first: "fetchFeeHistory ethQuery endBlock ?N percentiles =
      Inr \<lparr> startBlockId = oldestBlock response,
             blocks = spec_blocks (sort (remdups percentiles)) response ?N \<rparr>"
    if q: "ethQuery (decToHex ?N) (case endBlock of None \<Rightarrow> ''latest'' | Some b \<Rightarrow> b)
             (sort (remdups percentiles)) = Inr response"
      and rows: "\<forall>row \<in> set (reward response). length row = length (sort (remdups percentiles))"
  proof -
    let ?ps = "sort (remdups percentiles)"
    let ?block = "\<lambda>i. \<lparr> baseFeePerGas = hexToDec (?base ! i),
                         gasUsedRatio = Some (response_gasUsedRatio response ! i),
                         priorityFeesByPercentile =
                           map_of (zip ?ps (map hexToDec (reward response ! i))) \<rparr>"
    have d: "distinct ?ps" by simp
    have each: "\<forall>i \<in> set [0..<length hexes].
        (blockOfIndex ?ps (response_gasUsedRatio response) (reward response) \<circ>
           (\<lambda>i. (i, hexes ! i))) i = Inr (?block i)"
    proof
      fix i assume "i \<in> set [0..<length hexes]"
      then have i: "i < ?N" using taken by simp
      have "length (reward response ! i) = length ?ps"
        using rows i rew by (metis nth_mem)
      then show "(blockOfIndex ?ps (response_gasUsedRatio response) (reward response) \<circ>
           (\<lambda>i. (i, hexes ! i))) i = Inr (?block i)"
        using i rew ratio d by (simp add: blockOfIndex_aligned hex_nth)
    qed
    have collected: "collect (map (blockOfIndex ?ps (response_gasUsedRatio response)
          (reward response)) (zip [0..<length hexes] hexes)) =
        Inr (spec_blocks ?ps response ?N)"
      unfolding zip_upt_nth map_map collect_all [OF each]
      by (simp add: spec_blocks_def taken)
    have "fetchFeeHistory ethQuery endBlock ?N percentiles =
        (case collect (map (blockOfIndex ?ps (response_gasUsedRatio response)
                (reward response)) (zip [0..<length hexes] hexes)) of
           Inl e \<Rightarrow> Inl e
         | Inr bs \<Rightarrow> Inr \<lparr> startBlockId = oldestBlock response, blocks = bs \<rparr>)"
      unfolding fetchFeeHistory_def Let_def q hexes_def using nonempty by simp
    then show ?thesis by (simp add: collected)
  qed
  have second: "fetchFeeHistory_named ethQuery endBlock ?N percentiles =
      Inr \<lparr> startBlockId = oldestBlock response,
             blocks = spec_blocks percentiles response ?N \<rparr>"
    if q: "ethQuery (decToHex ?N) (case endBlock of None \<Rightarrow> ''latest'' | Some b \<Rightarrow> b)
             percentiles = Inr response"
      and d: "distinct percentiles"
      and rows: "\<forall>row \<in> set (reward response). length row = length percentiles"
  proof -
    have zipped: "zipEqualSizedTuples3 ?N hexes (response_gasUsedRatio response)
        (reward response) =
        Inr (map (\<lambda>i. (hexes ! i, response_gasUsedRatio response ! i, reward response ! i))
               [0..<?N])"
      using taken ratio rew by (simp add: zipEqualSizedTuples3_def zip3_nth)
    have each: "\<forall>i \<in> set [0..<?N].
        (blockOfTuple percentiles \<circ>
           (\<lambda>i. (hexes ! i, response_gasUsedRatio response ! i, reward response ! i))) i =
          Inr \<lparr> baseFeePerGas = hexToDec (?base ! i),
                 gasUsedRatio = Some (response_gasUsedRatio response ! i),
                 priorityFeesByPercentile =
                   map_of (zip percentiles (map hexToDec (reward response ! i))) \<rparr>"
    proof
      fix i assume "i \<in> set [0..<?N]"
      then have i: "i < ?N" by simp
      then have "length (reward response ! i) = length percentiles"
        using rows rew by (metis nth_mem)
      then show "(blockOfTuple percentiles \<circ>
           (\<lambda>i. (hexes ! i, response_gasUsedRatio response ! i, reward response ! i))) i =
          Inr \<lparr> baseFeePerGas = hexToDec (?base ! i),
                 gasUsedRatio = Some (response_gasUsedRatio response ! i),
                 priorityFeesByPercentile =
                   map_of (zip percentiles (map hexToDec (reward response ! i))) \<rparr>"
        using i d by (simp add: blockOfTuple_aligned hex_nth)
    qed
    have "fetchFeeHistory_named ethQuery endBlock ?N percentiles =
        (case zipEqualSizedTuples3 ?N hexes (response_gasUsedRatio response)
                (reward response) of
           Inl e \<Rightarrow> Inl e
         | Inr tuples \<Rightarrow>
             (case collect (map (blockOfTuple percentiles) tuples) of
                Inl e \<Rightarrow> Inl e
              | Inr bs \<Rightarrow> Inr \<lparr> startBlockId = oldestBlock response, blocks = bs \<rparr>))"
      unfolding fetchFeeHistory_named_def q hexes_def using nonempty by simp
    then show ?thesis
      by (simp add: zipped collect_all [OF each] spec_blocks_def)
  qed
  have third: "length (spec_blocks ps response ?N) = ?N" for ps
    by (simp add: spec_blocks_def)
  have fourth: "dom (priorityFeesByPercentile block) = set ps"
    if allrows: "\<forall>row \<in> set (reward response). length row = length ps"
      and member: "block \<in> set (spec_blocks ps response ?N)" for ps block
  proof -
    obtain i where i: "i < ?N" and b: "priorityFeesByPercentile block =
        map_of (zip ps (map hexToDec (reward response ! i)))"
      using member by (auto simp: spec_blocks_def)
    have "length (reward response ! i) = length ps"
      using allrows i rew by (metis nth_mem)
    then show ?thesis by (simp add: b)
  qed
  show ?thesis
    using first second third fourth by blast
qed

theorem fee_history_blocks_witness:
  "fetchFeeHistory (\<lambda>count endBlock percentiles. Inr mainnetResponse) None 5 [10, 20, 30] =
     Inr \<lparr> startBlockId = ''0xcb1939'', blocks = spec_blocks [10, 20, 30] mainnetResponse 5 \<rparr> \<and>
   fetchFeeHistory_named (\<lambda>count endBlock percentiles. Inr mainnetResponse) None 5 [10, 20, 30] =
     Inr \<lparr> startBlockId = ''0xcb1939'', blocks = spec_blocks [10, 20, 30] mainnetResponse 5 \<rparr> \<and>
   length (spec_blocks [10, 20, 30] mainnetResponse 5) = 5 \<and>
   map (\<lambda>block. dom (priorityFeesByPercentile block)) (spec_blocks [10, 20, 30] mainnetResponse 5) =
     replicate 5 {10, 20, 30}"
proof -
  have n: "0 < (5::nat)" by simp
  have base: "length (response_baseFeePerGas mainnetResponse) = 5 + 1"
    and ratio: "length (response_gasUsedRatio mainnetResponse) = 5"
    and rew: "length (reward mainnetResponse) = 5"
    and rows: "\<forall>row \<in> set (reward mainnetResponse). length row = length [10, 20, 30 :: nat]"
    and start: "oldestBlock mainnetResponse = ''0xcb1939''"
    by (simp_all add: mainnetResponse_def)
  have sorted: "sort (remdups [10, 20, 30 :: nat]) = [10, 20, 30]" by simp
  note facts = fee_history_blocks [OF n base ratio rew,
      of "\<lambda>count endBlock percentiles. Inr mainnetResponse" None "[10, 20, 30]"]
  have one: "fetchFeeHistory (\<lambda>count endBlock percentiles. Inr mainnetResponse) None 5
      [10, 20, 30] =
      Inr \<lparr> startBlockId = ''0xcb1939'', blocks = spec_blocks [10, 20, 30] mainnetResponse 5 \<rparr>"
    using facts [THEN conjunct1] rows by (simp add: sorted start)
  have two: "fetchFeeHistory_named (\<lambda>count endBlock percentiles. Inr mainnetResponse) None 5
      [10, 20, 30] =
      Inr \<lparr> startBlockId = ''0xcb1939'', blocks = spec_blocks [10, 20, 30] mainnetResponse 5 \<rparr>"
    using facts [THEN conjunct2, THEN conjunct1] rows by (simp add: start)
  have rest: "length (spec_blocks [10, 20, 30] mainnetResponse 5) = 5 \<and>
      ((\<forall>row \<in> set (reward mainnetResponse). length row = length [10, 20, 30 :: nat]) \<longrightarrow>
       (\<forall>block \<in> set (spec_blocks [10, 20, 30] mainnetResponse 5).
          dom (priorityFeesByPercentile block) = set [10, 20, 30]))"
    using facts [THEN conjunct2, THEN conjunct2] by (rule spec)
  from rest rows have three: "length (spec_blocks [10, 20, 30] mainnetResponse 5) = 5"
    and four: "\<forall>block \<in> set (spec_blocks [10, 20, 30] mainnetResponse 5).
          dom (priorityFeesByPercentile block) = set [10, 20, 30]"
    by blast+
  have "map (\<lambda>block. dom (priorityFeesByPercentile block))
      (spec_blocks [10, 20, 30] mainnetResponse 5) =
      map (\<lambda>block. set [10, 20, 30]) (spec_blocks [10, 20, 30] mainnetResponse 5)"
    using four by (intro map_cong) simp_all
  then have five: "map (\<lambda>block. dom (priorityFeesByPercentile block))
      (spec_blocks [10, 20, 30] mainnetResponse 5) = replicate 5 {10, 20, 30}"
    by (simp add: map_replicate_const three)
  show ?thesis
    using one two three five by simp
qed

section \<open>The estimates of the tiers\<close>



subsection \<open>Arithmetic that stays finite\<close>















subsection \<open>The amounts of one tier\<close>












lemma test_floor_applied:
  "spec_median (testFees P20) = 1400000000 \<and>
   fl (1400000000 * fl (1 - fl (3 / 100))) = 1358000000 \<and>
   spec_priority_fee (3 / 100) 1500000000 (testFees P20) = 1500000000"
  by code_simp


end
